theory Spec2Isabelle
  imports Main
begin

section \<open>Strings\<close>

text \<open>
  A JavaScript string is a sequence of UTF-16 code units. \<open>of_ascii\<close> writes the ASCII
  literals of the source.
\<close>

type_synonym jsstring = "nat list"

definition of_ascii :: "string \<Rightarrow> jsstring" where
  "of_ascii s = map of_char s"

text \<open>
  \<open>String.prototype.trim\<close> strips WhiteSpace and LineTerminator code units from both ends:
  TAB, LF, VT, FF, CR, SP, NBSP, U+1680, U+2000..U+200A, LS, PS, U+202F, U+205F, U+3000
  and U+FEFF.
\<close>

definition is_ws :: "nat \<Rightarrow> bool" where
  "is_ws c \<longleftrightarrow>
     (9 \<le> c \<and> c \<le> 13) \<or> c = 32 \<or> c = 160 \<or> c = 5760 \<or> (8192 \<le> c \<and> c \<le> 8202) \<or>
     c = 8232 \<or> c = 8233 \<or> c = 8239 \<or> c = 8287 \<or> c = 12288 \<or> c = 65279"

definition trim :: "jsstring \<Rightarrow> jsstring" where
  "trim s = rev (dropWhile is_ws (rev (dropWhile is_ws s)))"

text \<open>A string is falsy exactly when it is empty; \<open>null\<close> is \<open>None\<close>.\<close>

definition falsy :: "jsstring option \<Rightarrow> bool" where
  "falsy x \<longleftrightarrow> (case x of None \<Rightarrow> True | Some s \<Rightarrow> s = [])"

section \<open>HTTP\<close>

record DIDApiConfig =
  key :: jsstring
  url :: jsstring

definition agentId :: jsstring where
  "agentId = of_ascii ''v2_agt_08Ix5nLz''"

datatype http_method = GET | POST

text \<open>The JSON bodies the hook sends.\<close>

datatype request_body =
    NoBody
  | StreamOptions jsstring bool
      \<comment> \<open>\<open>{compatibility_mode, fluent}\<close>\<close>
  | IceBody "jsstring option" "(jsstring \<times> jsstring \<times> nat) option"
      \<comment> \<open>\<open>{session_id, candidate, sdpMid, sdpMLineIndex}\<close>, or \<open>{session_id}\<close> alone;
          \<open>JSON.stringify\<close> leaves an undefined \<open>session_id\<close> out\<close>
  | SdpBody jsstring "jsstring option"
      \<comment> \<open>\<open>{answer, session_id}\<close>\<close>
  | ScriptBody jsstring jsstring
      \<comment> \<open>\<open>{script: {type: 'text', input}, session_id}\<close>\<close>

record request =
  req_url :: jsstring
  req_method :: http_method
  req_authorization :: jsstring
  req_body :: request_body

text \<open>
  What \<open>res.json()\<close> gives. \<open>NotJson\<close> makes it reject; \<open>JsonNull\<close> is the value \<open>null\<close>,
  on which every property read throws. Any other value is read field by field, and a
  field that is missing reads as \<open>undefined\<close> (\<open>None\<close>): \<open>json\<close> holds the fields the hook
  reads, those of the agent lookup and those of the stream creation. \<open>j_fluent\<close> is the
  truthiness of the field \<open>fluent\<close>.
\<close>

record presenter =
  thumbnail :: "jsstring option"
  idle_video :: "jsstring option"

record json =
  j_preview_name :: "jsstring option"
  j_presenter :: "presenter option"
  j_id :: "jsstring option"
  j_session_id :: "jsstring option"
  j_offer :: "jsstring option"
  j_ice_servers :: "jsstring list option"
  j_fluent :: bool

datatype response_body = Json json | JsonNull | NotJson

text \<open>An undefined value in a template string or as a DOM string reads \<open>undefined\<close>.\<close>

definition template :: "jsstring option \<Rightarrow> jsstring" where
  "template x = (case x of None \<Rightarrow> of_ascii ''undefined'' | Some s \<Rightarrow> s)"

record response =
  ok :: bool
  status :: nat
  statusText :: jsstring
  body :: response_body

datatype error =
    NetworkError jsstring
      \<comment> \<open>\<open>fetch\<close> rejected\<close>
  | AgentInfoFailed nat jsstring
      \<comment> \<open>\<open>Failed to fetch agent info: status statusText\<close>\<close>
  | StreamCreateFailed nat jsstring
      \<comment> \<open>\<open>Failed to create stream: status statusText\<close>\<close>
  | JsonError
      \<comment> \<open>\<open>res.json()\<close> rejected\<close>
  | TypeError
      \<comment> \<open>a property read of \<open>null\<close> or \<open>undefined\<close>\<close>
  | SignalingError jsstring
      \<comment> \<open>\<open>setRemoteDescription\<close>, \<open>createAnswer\<close> or \<open>setLocalDescription\<close> rejected\<close>

type_synonym outcome = "error + response"

section \<open>The agent connection hook: state\<close>

text \<open>
  The values of one render of \<open>useAgentConnection\<close>. Every callback of the hook
  (\<open>connect\<close>, \<open>speak\<close>, \<open>closeConnection\<close>, \<open>updateVideoDisplay\<close>) reads the values of
  the render that created it, so each of them takes a \<open>hook_state\<close> beside the world.
  A peer connection is named by its index in \<open>pcs\<close>.
\<close>

record hook_state =
  isStreamReady :: bool
  isStreamPlaying :: bool
  isFluent :: bool
  peerConnection :: "nat option"
  streamId :: "jsstring option"
  sessionId :: "jsstring option"
  apiConfig :: "DIDApiConfig option"

datatype track_kind = Audio | Video

text \<open>A \<open>MediaStream\<close> is the list of its tracks, each an identifier with its kind.\<close>

type_synonym media_stream = "(nat \<times> track_kind) list"

definition getVideoTracks :: "media_stream \<Rightarrow> (nat \<times> track_kind) list" where
  "getVideoTracks stream = filter (\<lambda>t. snd t = Video) stream"

text \<open>
  A \<open>video\<close> element: \<open>style.opacity\<close> (the strings \<open>'0'\<close> and \<open>'1'\<close>, kept as
  numbers), \<open>muted\<close>, \<open>srcObject\<close>, \<open>paused\<close>, \<open>src\<close>, and the
  \<open>style.backgroundImage\<close> of its parent element (\<open>None\<close>: no parent).
\<close>

record video_el =
  opacity :: nat
  muted :: bool
  srcObject :: "media_stream option"
  paused :: bool
  src :: jsstring
  parent_backgroundImage :: "jsstring option"

datatype conn_state = New | Connecting | Connected | Disconnected | Failed | Closed

text \<open>
  An \<open>RTCPeerConnection\<close> with what the handlers registered by \<open>connect\<close> close over: the
  locals \<open>isFluentMode\<close>, \<open>id\<close>, \<open>session_id\<close>, \<open>apiConfig\<close>, and the render whose
  \<open>closeConnection\<close> and \<open>updateVideoDisplay\<close> they call.
\<close>

record peer_conn =
  connectionState :: conn_state
  iceServers :: "jsstring list option"
  pc_isFluentMode :: bool
  pc_id :: "jsstring option"
  pc_session_id :: "jsstring option"
  pc_apiConfig :: DIDApiConfig
  pc_render :: hook_state

text \<open>The closure of one \<open>setInterval\<close> callback of the track handler.\<close>

record monitor =
  mon_pc :: nat
  mon_track :: nat
  mon_stream :: media_stream
  lastBytes :: nat
  lastPlayingState :: bool
  cleared :: bool

datatype status_text =
    StatusConnecting
      \<comment> \<open>\<open>'Connecting...'\<close> (with an ellipsis character)\<close>
  | StatusConnected
      \<comment> \<open>\<open>'Connected'\<close>\<close>
  | StatusConnectionFailed
      \<comment> \<open>\<open>'Connection failed'\<close>\<close>

text \<open>What the hook does to the outside, in the order it does it.\<close>

datatype effect =
    Fetch request
  | Backoff
      \<comment> \<open>the wait of \<open>(Math.random() + 1) * 1000\<close> ms before a retry\<close>
  | OnConnectionStatusChange status_text
  | OnConnectionChange bool
  | OnAgentNameChange "jsstring option"
  | StopTrack nat
  | ClosePc nat
  | NewPc nat
  | CreateDataChannel nat
  | Play
      \<comment> \<open>\<open>streamVideoRef.current.play()\<close>\<close>
  | SetTimeout nat
      \<comment> \<open>the delayed play of the track handler\<close>

record world =
  hook :: hook_state
  streamVideo :: "video_el option"
  idleVideo :: "video_el option"
  pcs :: "peer_conn list"
  monitors :: "monitor list"
  effects :: "effect list"

text \<open>
  The outside: \<open>net k rq\<close> is how the network answers request \<open>rq\<close> when \<open>k\<close> requests
  were issued before it; \<open>negotiate offer\<close> is the answer of
  \<open>setRemoteDescription(offer); createAnswer(); setLocalDescription(answer)\<close>, or the
  rejection of one of the three.
\<close>

record env =
  net :: "nat \<Rightarrow> request \<Rightarrow> outcome"
  negotiate :: "jsstring option \<Rightarrow> error + jsstring"

definition emit :: "effect \<Rightarrow> world \<Rightarrow> world" where
  "emit e w = w\<lparr>effects := effects w @ [e]\<rparr>"

fun requests_of :: "effect list \<Rightarrow> request list" where
  "requests_of [] = []"
| "requests_of (Fetch rq # es) = rq # requests_of es"
| "requests_of (e # es) = requests_of es"

definition requests :: "world \<Rightarrow> request list" where
  "requests w = requests_of (effects w)"

definition setIsStreamReady :: "bool \<Rightarrow> world \<Rightarrow> world" where
  "setIsStreamReady b w = w\<lparr>hook := (hook w)\<lparr>isStreamReady := b\<rparr>\<rparr>"

definition setIsStreamPlaying :: "bool \<Rightarrow> world \<Rightarrow> world" where
  "setIsStreamPlaying b w = w\<lparr>hook := (hook w)\<lparr>isStreamPlaying := b\<rparr>\<rparr>"

definition setIsFluent :: "bool \<Rightarrow> world \<Rightarrow> world" where
  "setIsFluent b w = w\<lparr>hook := (hook w)\<lparr>isFluent := b\<rparr>\<rparr>"

definition setPeerConnection :: "nat option \<Rightarrow> world \<Rightarrow> world" where
  "setPeerConnection p w = w\<lparr>hook := (hook w)\<lparr>peerConnection := p\<rparr>\<rparr>"

definition setStreamId :: "jsstring option \<Rightarrow> world \<Rightarrow> world" where
  "setStreamId x w = w\<lparr>hook := (hook w)\<lparr>streamId := x\<rparr>\<rparr>"

definition setSessionId :: "jsstring option \<Rightarrow> world \<Rightarrow> world" where
  "setSessionId x w = w\<lparr>hook := (hook w)\<lparr>sessionId := x\<rparr>\<rparr>"

definition onConnectionStatusChange :: "status_text \<Rightarrow> world \<Rightarrow> world" where
  "onConnectionStatusChange t w = emit (OnConnectionStatusChange t) w"

definition onConnectionChange :: "bool \<Rightarrow> world \<Rightarrow> world" where
  "onConnectionChange b w = emit (OnConnectionChange b) w"

definition onAgentNameChange :: "jsstring option \<Rightarrow> world \<Rightarrow> world" where
  "onAgentNameChange n w = emit (OnAgentNameChange n) w"

section \<open>Resilient fetch\<close>

definition fetch :: "env \<Rightarrow> request \<Rightarrow> world \<Rightarrow> outcome \<times> world" where
  "fetch ev rq w = (net ev (length (requests w)) rq, emit (Fetch rq) w)"

function fetchWithRetry :: "env \<Rightarrow> request \<Rightarrow> int \<Rightarrow> world \<Rightarrow> outcome \<times> world" where
  "fetchWithRetry ev rq retries w =
     (case fetch ev rq w of
        (Inr res, w1) \<Rightarrow>
          if \<not> ok res \<and> retries > 0
          then fetchWithRetry ev rq (retries - 1) (emit Backoff w1)
          else (Inr res, w1)
      | (Inl err, w1) \<Rightarrow>
          if retries > 0
          then fetchWithRetry ev rq (retries - 1) (emit Backoff w1)
          else (Inl err, w1))"
  by pat_completeness auto
termination
  by (relation "measure (\<lambda>(ev, rq, retries, w). nat retries)") auto

declare fetchWithRetry.simps [simp del]

text \<open>An attempt fails when \<open>fetch\<close> rejects or the response is not \<open>ok\<close>.\<close>

definition failed :: "outcome \<Rightarrow> bool" where
  "failed x \<longleftrightarrow> (case x of Inl err \<Rightarrow> True | Inr res \<Rightarrow> \<not> ok res)"

section \<open>Media presentation\<close>

definition play_if_paused :: "world \<Rightarrow> world" where
  "play_if_paused w =
     (case streamVideo w of
        None \<Rightarrow> w
      | Some sv \<Rightarrow>
          if paused sv then emit Play (w\<lparr>streamVideo := Some (sv\<lparr>paused := False\<rparr>)\<rparr>) else w)"

definition updateVideoDisplay :: "hook_state \<Rightarrow> media_stream option \<Rightarrow> bool \<Rightarrow> world \<Rightarrow> world" where
  "updateVideoDisplay r stream isPlaying w =
     (case (streamVideo w, idleVideo w) of
        (Some sv, Some iv) \<Rightarrow>
          if \<not> isFluent r then
            let streamOpacity = (if isPlaying \<and> isStreamReady r then 1 else 0 :: nat);
                w1 = w\<lparr>idleVideo := Some (iv\<lparr>opacity := 1 - streamOpacity\<rparr>),
                       streamVideo := Some (sv\<lparr>opacity := streamOpacity\<rparr>)\<rparr>
            in if isPlaying \<and> stream \<noteq> None
               then play_if_paused
                      (w1\<lparr>streamVideo :=
                           Some (sv\<lparr>opacity := streamOpacity, srcObject := stream,
                                     muted := \<not> isStreamReady r\<rparr>)\<rparr>)
               else w1
          else
            let w1 = w\<lparr>idleVideo := Some (iv\<lparr>opacity := 0\<rparr>),
                       streamVideo := Some (sv\<lparr>opacity := 1, muted := False\<rparr>)\<rparr>
            in if stream \<noteq> None
               then play_if_paused
                      (w1\<lparr>streamVideo :=
                           Some (sv\<lparr>opacity := 1, muted := False, srcObject := stream\<rparr>)\<rparr>)
               else w1
      | _ \<Rightarrow> w)"

section \<open>Teardown\<close>

definition stopStream :: "world \<Rightarrow> world" where
  "stopStream w =
     (case streamVideo w of
        None \<Rightarrow> w
      | Some sv \<Rightarrow>
          (case srcObject sv of
             None \<Rightarrow> w
           | Some stream \<Rightarrow>
               w\<lparr>effects := effects w @ map (\<lambda>t. StopTrack (fst t)) stream,
                 streamVideo := Some (sv\<lparr>srcObject := None\<rparr>)\<rparr>))"

text \<open>\<open>peerConnection.close()\<close>: the connection state becomes \<open>closed\<close>.\<close>

definition close_pc :: "nat \<Rightarrow> world \<Rightarrow> world" where
  "close_pc i w =
     emit (ClosePc i) (w\<lparr>pcs := (pcs w)[i := (pcs w ! i)\<lparr>connectionState := Closed\<rparr>]\<rparr>)"

definition closeConnection :: "hook_state \<Rightarrow> world \<Rightarrow> world" where
  "closeConnection r w =
     (case peerConnection r of
        None \<Rightarrow> w
      | Some i \<Rightarrow>
          setIsStreamPlaying False (setIsStreamReady False (setPeerConnection None (close_pc i w))))"

section \<open>Session negotiation\<close>

definition agents_url :: "DIDApiConfig \<Rightarrow> jsstring" where
  "agents_url cfg = url cfg @ of_ascii ''/agents/'' @ agentId"

definition basic_auth :: "DIDApiConfig \<Rightarrow> jsstring" where
  "basic_auth cfg = of_ascii ''Basic '' @ key cfg"

definition agent_request :: "DIDApiConfig \<Rightarrow> request" where
  "agent_request cfg =
     \<lparr>req_url = agents_url cfg, req_method = GET,
      req_authorization = basic_auth cfg, req_body = NoBody\<rparr>"

definition stream_request :: "DIDApiConfig \<Rightarrow> request" where
  "stream_request cfg =
     \<lparr>req_url = agents_url cfg @ of_ascii ''/streams'', req_method = POST,
      req_authorization = basic_auth cfg, req_body = StreamOptions (of_ascii ''on'') True\<rparr>"

definition ice_request ::
  "DIDApiConfig \<Rightarrow> jsstring option \<Rightarrow> jsstring option
     \<Rightarrow> (jsstring \<times> jsstring \<times> nat) option \<Rightarrow> request" where
  "ice_request cfg sid sess cand =
     \<lparr>req_url = agents_url cfg @ of_ascii ''/streams/'' @ template sid @ of_ascii ''/ice'',
      req_method = POST, req_authorization = basic_auth cfg, req_body = IceBody sess cand\<rparr>"

definition sdp_request ::
  "DIDApiConfig \<Rightarrow> jsstring option \<Rightarrow> jsstring option \<Rightarrow> jsstring \<Rightarrow> request" where
  "sdp_request cfg sid sess answer =
     \<lparr>req_url = agents_url cfg @ of_ascii ''/streams/'' @ template sid @ of_ascii ''/sdp'',
      req_method = POST, req_authorization = basic_auth cfg, req_body = SdpBody answer sess\<rparr>"

definition speak_request :: "DIDApiConfig \<Rightarrow> jsstring \<Rightarrow> jsstring \<Rightarrow> jsstring \<Rightarrow> request" where
  "speak_request cfg sid sess val =
     \<lparr>req_url = agents_url cfg @ of_ascii ''/streams/'' @ sid,
      req_method = POST, req_authorization = basic_auth cfg, req_body = ScriptBody val sess\<rparr>"

text \<open>
  \<open>new RTCPeerConnection({iceServers})\<close> with the three listeners and the data channel;
  the listeners are \<open>on_icecandidate\<close>, \<open>on_connectionstatechange\<close> and \<open>on_track\<close> below.
\<close>

definition new_pc :: "hook_state \<Rightarrow> DIDApiConfig \<Rightarrow> json \<Rightarrow> world \<Rightarrow> world" where
  "new_pc r cfg sd w =
     (let i = length (pcs w);
          pc = \<lparr>connectionState = New, iceServers = j_ice_servers sd,
                pc_isFluentMode = j_fluent sd, pc_id = j_id sd,
                pc_session_id = j_session_id sd, pc_apiConfig = cfg, pc_render = r\<rparr>
      in emit (CreateDataChannel i)
           (setPeerConnection (Some i) (emit (NewPc i) (w\<lparr>pcs := pcs w @ [pc]\<rparr>))))"

text \<open>
  The idle visuals of a non-fluent avatar, set when both video elements are mounted. With
  no \<open>presenter\<close> in the agent data, the read of \<open>presenter.thumbnail\<close> (or, with no parent
  element, of \<open>presenter.idle_video\<close>) throws before anything is set.
\<close>

definition prep_idle :: "json \<Rightarrow> json \<Rightarrow> world \<Rightarrow> error + world" where
  "prep_idle agentData sd w =
     (case (streamVideo w, idleVideo w) of
        (Some sv, Some iv) \<Rightarrow>
          if \<not> j_fluent sd then
            (case j_presenter agentData of
               None \<Rightarrow> Inl TypeError
             | Some p \<Rightarrow>
                 Inr (w\<lparr>streamVideo :=
                          Some (sv\<lparr>parent_backgroundImage :=
                                    (case parent_backgroundImage sv of
                                       None \<Rightarrow> None
                                     | Some b \<Rightarrow>
                                         Some (of_ascii ''url('' @ template (thumbnail p)
                                               @ of_ascii '')''))\<rparr>),
                        idleVideo := Some (iv\<lparr>src := template (idle_video p)\<rparr>)\<rparr>))
          else Inr w
      | _ \<Rightarrow> Inr w)"

text \<open>
  The body of the \<open>try\<close> block of \<open>connect\<close>: the error thrown, if any, and the world
  at that point.
\<close>

definition connect_try :: "hook_state \<Rightarrow> DIDApiConfig \<Rightarrow> env \<Rightarrow> world \<Rightarrow> error option \<times> world" where
  "connect_try r cfg ev w =
     (case fetch ev (agent_request cfg) w of
        (Inl err, w1) \<Rightarrow> (Some err, w1)
      | (Inr resAgent, w1) \<Rightarrow>
          if \<not> ok resAgent
          then (Some (AgentInfoFailed (status resAgent) (statusText resAgent)), w1)
          else
            (case body resAgent of
               NotJson \<Rightarrow> (Some JsonError, w1)
             | JsonNull \<Rightarrow> (Some TypeError, w1)
             | Json agentData \<Rightarrow>
                 (case fetchWithRetry ev (stream_request cfg) 3
                         (onAgentNameChange (j_preview_name agentData) w1) of
                    (Inl err, w2) \<Rightarrow> (Some err, w2)
                  | (Inr resStream, w2) \<Rightarrow>
                      if \<not> ok resStream
                      then (Some (StreamCreateFailed (status resStream) (statusText resStream)), w2)
                      else
                        (case body resStream of
                           NotJson \<Rightarrow> (Some JsonError, w2)
                         | JsonNull \<Rightarrow> (Some TypeError, w2)
                         | Json sd \<Rightarrow>
                             (let w3 = setIsFluent (j_fluent sd)
                                         (setSessionId (j_session_id sd)
                                            (setStreamId (j_id sd) w2))
                              in case prep_idle agentData sd w3 of
                                   Inl err \<Rightarrow> (Some err, w3)
                                 | Inr w4 \<Rightarrow>
                                     (let w5 = new_pc r cfg sd w4
                                      in case negotiate ev (j_offer sd) of
                                           Inl err \<Rightarrow> (Some err, w5)
                                         | Inr answer \<Rightarrow>
                                             (case fetch ev
                                                     (sdp_request cfg (j_id sd) (j_session_id sd)
                                                        answer)
                                                     w5 of
                                                (Inl err, w6) \<Rightarrow> (Some err, w6)
                                              | (Inr resSdp, w6) \<Rightarrow> (None, w6))))))))"

text \<open>
  \<open>connect\<close>, as created by the render \<open>r\<close>. A call runs to its end in one step: the
  waits of the source are not points where another callback runs, so two calls that
  overlap are not described.
\<close>

definition pc_connected :: "hook_state \<Rightarrow> world \<Rightarrow> bool" where
  "pc_connected r w \<longleftrightarrow>
     (case peerConnection r of
        None \<Rightarrow> False
      | Some i \<Rightarrow> connectionState (pcs w ! i) = Connected)"

definition connect :: "hook_state \<Rightarrow> env \<Rightarrow> world \<Rightarrow> world" where
  "connect r ev w =
     (case apiConfig r of
        None \<Rightarrow> w
      | Some cfg \<Rightarrow>
          (let w1 = onConnectionStatusChange StatusConnecting w
           in if pc_connected r w1 then w1
              else (case connect_try r cfg ev (closeConnection r (stopStream w1)) of
                      (None, w2) \<Rightarrow> w2
                    | (Some err, w2) \<Rightarrow>
                        onConnectionChange False
                          (onConnectionStatusChange StatusConnectionFailed w2))))"

section \<open>Speak\<close>

text \<open>The error is the rejection of the promise \<open>speak\<close> returns.\<close>

definition speak :: "hook_state \<Rightarrow> jsstring \<Rightarrow> env \<Rightarrow> world \<Rightarrow> error option \<times> world" where
  "speak r message ev w =
     (if peerConnection r = None \<or> \<not> isStreamReady r \<or> apiConfig r = None
         \<or> falsy (streamId r) \<or> falsy (sessionId r)
      then (None, w)
      else
        (let val = trim message
         in if val = [] then (None, w)
            else (case fetchWithRetry ev
                         (speak_request (the (apiConfig r)) (the (streamId r))
                            (the (sessionId r)) val) 3 w of
                    (Inl err, w1) \<Rightarrow> (Some err, w1)
                  | (Inr res, w1) \<Rightarrow> (None, w1))))"

section \<open>Events of a peer connection\<close>

text \<open>The \<open>icecandidate\<close> listener: one plain \<open>fetch\<close> whose promise is dropped.\<close>

definition on_icecandidate ::
  "nat \<Rightarrow> (jsstring \<times> jsstring \<times> nat) option \<Rightarrow> env \<Rightarrow> world \<Rightarrow> world" where
  "on_icecandidate i cand ev w =
     (let pc = pcs w ! i
      in snd (fetch ev (ice_request (pc_apiConfig pc) (pc_id pc) (pc_session_id pc) cand) w))"

text \<open>
  The \<open>connectionstatechange\<close> listener. Its \<open>closeConnection\<close> is the one of the render
  that called \<open>connect\<close>.
\<close>

definition on_connectionstatechange :: "nat \<Rightarrow> world \<Rightarrow> world" where
  "on_connectionstatechange i w =
     (let pc = pcs w ! i;
          st = connectionState pc;
          w1 = (if st = Connecting then onConnectionStatusChange StatusConnecting w else w);
          w2 = (if st = Connected
                then onConnectionChange True
                       (onConnectionStatusChange StatusConnected (setIsStreamReady True w1))
                else w1);
          w3 = (if st = Disconnected then onConnectionChange False w2 else w2)
      in if st = Failed \<or> st = Closed
         then closeConnection (pc_render pc) (stopStream w3)
         else w3)"

text \<open>
  The \<open>track\<close> listener, given \<open>event.streams\<close>. With no stream, \<open>stream.getVideoTracks()\<close>
  throws and nothing is done. Every call that passes the guard starts an interval of
  its own.
\<close>

definition on_track :: "nat \<Rightarrow> media_stream list \<Rightarrow> world \<Rightarrow> world" where
  "on_track i streams w =
     (case streams of
        [] \<Rightarrow> w
      | stream # _ \<Rightarrow>
          (case (getVideoTracks stream, streamVideo w) of
             (track # _, Some sv) \<Rightarrow>
               (let w1 = w\<lparr>streamVideo := Some (sv\<lparr>srcObject := Some stream, muted := False\<rparr>)\<rparr>;
                    w2 = (if pc_isFluentMode (pcs w ! i)
                          then emit (SetTimeout 100)
                                 (setIsStreamReady True
                                    (w1\<lparr>streamVideo :=
                                          Some (sv\<lparr>srcObject := Some stream, muted := False,
                                                    opacity := 1\<rparr>),
                                        idleVideo :=
                                          map_option (\<lambda>iv. iv\<lparr>opacity := 0\<rparr>) (idleVideo w1)\<rparr>))
                          else w1)
                in w2\<lparr>monitors := monitors w2 @
                        [\<lparr>mon_pc = i, mon_track = fst track, mon_stream = stream,
                          lastBytes = 0, lastPlayingState = False, cleared = False\<rparr>]\<rparr>)
           | _ \<Rightarrow> w))"

text \<open>The callback of the 100 ms timer of the fluent branch.\<close>

definition delayed_play :: "world \<Rightarrow> world" where
  "delayed_play w = play_if_paused w"

section \<open>Stream health monitor\<close>

datatype report_type = InboundRtp | OtherReport

record report =
  rep_type :: report_type
  rep_kind :: track_kind
  bytesReceived :: nat

text \<open>
  What one run of the interval callback finds: no receiver for the track, \<open>getStats()\<close>
  rejected, or the reports of the receiver.
\<close>

datatype stats = NoReceiver | StatsRejected | Reports "report list"

text \<open>The body of \<open>stats.forEach\<close>, on the world and the closure of the interval.\<close>

definition on_report :: "peer_conn \<Rightarrow> report \<Rightarrow> world \<times> monitor \<Rightarrow> world \<times> monitor" where
  "on_report pc rep wm =
     (let w = fst wm; m = snd wm
      in if rep_type rep = InboundRtp \<and> rep_kind rep = Video then
           (let nowPlaying = (bytesReceived rep > lastBytes m);
                wm1 = (if nowPlaying \<noteq> lastPlayingState m
                       then ((let w1 = setIsStreamPlaying nowPlaying w
                              in if \<not> pc_isFluentMode pc
                                 then updateVideoDisplay (pc_render pc) (Some (mon_stream m))
                                        nowPlaying w1
                                 else w1),
                             m\<lparr>lastPlayingState := nowPlaying\<rparr>)
                       else (w, m))
            in (fst wm1, (snd wm1)\<lparr>lastBytes := bytesReceived rep\<rparr>))
         else (w, m))"

definition on_interval :: "nat \<Rightarrow> stats \<Rightarrow> world \<Rightarrow> world" where
  "on_interval k st w =
     (let m = monitors w ! k; pc = pcs w ! mon_pc m
      in if connectionState pc = Closed
         then w\<lparr>monitors := (monitors w)[k := m\<lparr>cleared := True\<rparr>]\<rparr>
         else
           (case st of
              Reports reps \<Rightarrow>
                (let wm = foldl (\<lambda>wm rep. on_report pc rep wm) (w, m) reps
                 in (fst wm)\<lparr>monitors := (monitors (fst wm))[k := snd wm]\<rparr>)
            | _ \<Rightarrow> w))"

text \<open>
  What the browser delivers. A state change sets the connection state before the listener
  runs; a closed connection and a cleared interval deliver nothing.
\<close>

datatype event =
    IceCandidate nat "(jsstring \<times> jsstring \<times> nat) option"
  | ConnectionStateChange nat conn_state
  | Track nat "media_stream list"
  | Interval nat stats
  | DelayedPlay

definition pc_open :: "nat \<Rightarrow> world \<Rightarrow> bool" where
  "pc_open i w \<longleftrightarrow> i < length (pcs w) \<and> connectionState (pcs w ! i) \<noteq> Closed"

fun handle :: "env \<Rightarrow> event \<Rightarrow> world \<Rightarrow> world" where
  "handle ev (IceCandidate i cand) w = (if pc_open i w then on_icecandidate i cand ev w else w)"
| "handle ev (ConnectionStateChange i st) w =
     (if pc_open i w
      then on_connectionstatechange i
             (w\<lparr>pcs := (pcs w)[i := (pcs w ! i)\<lparr>connectionState := st\<rparr>]\<rparr>)
      else w)"
| "handle ev (Track i streams) w = (if pc_open i w then on_track i streams w else w)"
| "handle ev (Interval k st) w =
     (if k < length (monitors w) \<and> \<not> cleared (monitors w ! k) \<and> mon_pc (monitors w ! k) < length (pcs w)
      then on_interval k st w else w)"
| "handle ev DelayedPlay w = delayed_play w"

definition run :: "env \<Rightarrow> event list \<Rightarrow> world \<Rightarrow> world" where
  "run ev es w = foldl (\<lambda>w e. handle ev e w) w es"

section \<open>The realtime voice bridge\<close>

datatype ready_state = CONNECTING | OPEN | CLOSING | CLOSED

text \<open>
  A \<open>WebSocket\<close> with what its handlers close over: \<open>isConnected\<close> of the render whose
  \<open>connect\<close> opened it.
\<close>

record socket =
  readyState :: ready_state
  ws_isConnected :: bool

datatype error_text =
    ConnectionErrorOccurred
      \<comment> \<open>\<open>'Connection error occurred'\<close>\<close>
  | FailedToAccessMicrophone
      \<comment> \<open>\<open>'Failed to access microphone or connect to API'\<close>\<close>

datatype bridge_effect =
    OnTextReceived jsstring
  | OnError error_text
  | OnBridgeConnectionChange bool
  | NewWebSocket nat
  | SendSessionUpdate nat

text \<open>
  \<open>timers\<close> holds the pending \<open>setTimeout\<close> callbacks of \<open>ws.onclose\<close>: the delay in
  milliseconds and the \<open>isConnected\<close> the callback closes over.
\<close>

record bridge =
  isConnected :: bool
  isListening :: bool
  lastResponse :: jsstring
  wsRef :: "nat option"
  sockets :: "socket list"
  streamRef :: "media_stream option"
  currentResponseRef :: jsstring
  timers :: "(nat \<times> bool) list"
  bridge_effects :: "bridge_effect list"

text \<open>
  The outside of the bridge: what \<open>getUserMedia\<close> resolves to (\<open>None\<close>: it rejects) and
  the API key of the environment.
\<close>

record bridge_env =
  getUserMedia :: "media_stream option"
  apiKey :: "jsstring option"

definition bridge_emit :: "bridge_effect \<Rightarrow> bridge \<Rightarrow> bridge" where
  "bridge_emit e b = b\<lparr>bridge_effects := bridge_effects b @ [e]\<rparr>"

definition ws_is_open :: "bridge \<Rightarrow> bool" where
  "ws_is_open b \<longleftrightarrow>
     (case wsRef b of None \<Rightarrow> False | Some i \<Rightarrow> readyState (sockets b ! i) = OPEN)"

text \<open>\<open>connect\<close> of \<open>useRealtimeGPT\<close>, as created by a render whose \<open>isConnected\<close> is \<open>c\<close>.\<close>

definition realtime_connect :: "bool \<Rightarrow> bridge_env \<Rightarrow> bridge \<Rightarrow> bridge" where
  "realtime_connect c ev b =
     (if c \<or> ws_is_open b then b
      else
        (case getUserMedia ev of
           None \<Rightarrow> bridge_emit (OnError FailedToAccessMicrophone) b
         | Some stream \<Rightarrow>
             (let b1 = b\<lparr>streamRef := Some stream\<rparr>
              in if falsy (apiKey ev)
                 then bridge_emit (OnError FailedToAccessMicrophone) b1
                 else
                   (let i = length (sockets b1)
                    in bridge_emit (NewWebSocket i)
                         (b1\<lparr>sockets := sockets b1 @ [\<lparr>readyState = CONNECTING, ws_isConnected = c\<rparr>],
                             wsRef := Some i\<rparr>)))))"

definition ws_onopen :: "nat \<Rightarrow> bridge \<Rightarrow> bridge" where
  "ws_onopen i b =
     bridge_emit (SendSessionUpdate i)
       (bridge_emit (OnBridgeConnectionChange True) (b\<lparr>isConnected := True\<rparr>))"

text \<open>
  \<open>ws.onclose\<close> with the close code. The timer callback is \<open>reconnect_timer\<close>.
\<close>

definition ws_onclose :: "nat \<Rightarrow> nat \<Rightarrow> bridge \<Rightarrow> bridge" where
  "ws_onclose i code b =
     (let b1 = bridge_emit (OnBridgeConnectionChange False)
                 (b\<lparr>isConnected := False, isListening := False\<rparr>)
      in if code \<noteq> 1000
         then b1\<lparr>timers := timers b1 @ [(3000, ws_isConnected (sockets b1 ! i))]\<rparr>
         else b1)"

definition reconnect_timer :: "bool \<Rightarrow> bridge_env \<Rightarrow> bridge \<Rightarrow> bridge" where
  "reconnect_timer c ev b = (if \<not> c then realtime_connect c ev b else b)"

definition ws_onerror :: "nat \<Rightarrow> bridge \<Rightarrow> bridge" where
  "ws_onerror i b =
     bridge_emit (OnBridgeConnectionChange False)
       ((bridge_emit (OnError ConnectionErrorOccurred) b)\<lparr>isConnected := False\<rparr>)"

datatype role = User | Assistant

datatype content_type = InputText | OutputText

datatype realtime_message =
    ResponseTextDelta jsstring
  | ResponseTextDone
  | ConversationItemCreated role "(content_type \<times> jsstring) list"
  | ResponseAudioDelta
  | ResponseAudioDone
  | SpeechStarted
  | SpeechStopped
  | Unhandled jsstring

fun handleRealtimeMessage :: "realtime_message \<Rightarrow> bridge \<Rightarrow> bridge" where
  "handleRealtimeMessage (ResponseTextDelta delta) b =
     b\<lparr>currentResponseRef := currentResponseRef b @ delta\<rparr>"
| "handleRealtimeMessage ResponseTextDone b =
     (if trim (currentResponseRef b) \<noteq> []
      then (bridge_emit (OnTextReceived (currentResponseRef b))
              (b\<lparr>lastResponse := currentResponseRef b\<rparr>))\<lparr>currentResponseRef := []\<rparr>
      else b)"
| "handleRealtimeMessage (ConversationItemCreated r content) b =
     (if r = Assistant then
        (case find (\<lambda>c. fst c = OutputText) content of
           Some (t, text) \<Rightarrow>
             if text \<noteq> []
             then bridge_emit (OnTextReceived text) (b\<lparr>lastResponse := text\<rparr>)
             else b
         | None \<Rightarrow> b)
      else b)"
| "handleRealtimeMessage m b = b"

text \<open>\<open>ws.onmessage\<close>: \<open>None\<close> is data that \<open>JSON.parse\<close> rejects.\<close>

definition ws_onmessage :: "realtime_message option \<Rightarrow> bridge \<Rightarrow> bridge" where
  "ws_onmessage data b = (case data of None \<Rightarrow> b | Some m \<Rightarrow> handleRealtimeMessage m b)"

text \<open>
  What the browser delivers to the bridge: the socket events, with the ready state set
  before the handler runs, and the firing of the oldest pending timer.
\<close>

datatype bridge_event =
    Open nat
  | Message nat "realtime_message option"
  | Close nat nat
  | Error nat
  | TimerFired

fun bridge_handle :: "bridge_env \<Rightarrow> bridge_event \<Rightarrow> bridge \<Rightarrow> bridge" where
  "bridge_handle ev (Open i) b =
     (if i < length (sockets b) \<and> readyState (sockets b ! i) = CONNECTING
      then ws_onopen i (b\<lparr>sockets := (sockets b)[i := (sockets b ! i)\<lparr>readyState := OPEN\<rparr>]\<rparr>)
      else b)"
| "bridge_handle ev (Message i data) b =
     (if i < length (sockets b) \<and> readyState (sockets b ! i) = OPEN
      then ws_onmessage data b else b)"
| "bridge_handle ev (Close i code) b =
     (if i < length (sockets b) \<and> readyState (sockets b ! i) \<noteq> CLOSED
      then ws_onclose i code
             (b\<lparr>sockets := (sockets b)[i := (sockets b ! i)\<lparr>readyState := CLOSED\<rparr>]\<rparr>)
      else b)"
| "bridge_handle ev (Error i) b = (if i < length (sockets b) then ws_onerror i b else b)"
| "bridge_handle ev TimerFired b =
     (case timers b of
        [] \<Rightarrow> b
      | (delay, c) # ts \<Rightarrow> reconnect_timer c ev (b\<lparr>timers := ts\<rparr>))"

definition bridge_run :: "bridge_env \<Rightarrow> bridge_event list \<Rightarrow> bridge \<Rightarrow> bridge" where
  "bridge_run ev es b = foldl (\<lambda>b e. bridge_handle ev e b) b es"

definition bridge_init :: bridge where
  "bridge_init =
     \<lparr>isConnected = False, isListening = False, lastResponse = [], wsRef = None,
      sockets = [], streamRef = None, currentResponseRef = [], timers = [],
      bridge_effects = []\<rparr>"

section \<open>Initial state\<close>

definition hook_init :: hook_state where
  "hook_init =
     \<lparr>isStreamReady = False, isStreamPlaying = False, isFluent = False,
      peerConnection = None, streamId = None, sessionId = None, apiConfig = None\<rparr>"

text \<open>The page mounts both videos: the stream video transparent, the idle video visible.\<close>

definition video_init :: "nat \<Rightarrow> video_el" where
  "video_init op =
     \<lparr>opacity = op, muted = False, srcObject = None, paused = True, src = [],
      parent_backgroundImage = Some []\<rparr>"

definition world_init :: "DIDApiConfig \<Rightarrow> world" where
  "world_init cfg =
     \<lparr>hook = hook_init\<lparr>apiConfig := Some cfg\<rparr>,
      streamVideo = Some (video_init 0), idleVideo = Some (video_init 1),
      pcs = [], monitors = [], effects = []\<rparr>"

text \<open>The connections that are not closed.\<close>

definition live :: "world \<Rightarrow> nat list" where
  "live w = filter (\<lambda>i. connectionState (pcs w ! i) \<noteq> Closed) [0..<length (pcs w)]"

text \<open>\<open>connect\<close> of the current render, as the page calls it.\<close>

definition connect_now :: "env \<Rightarrow> world \<Rightarrow> world" where
  "connect_now ev w = connect (hook w) ev w"

section \<open>Example inputs\<close>

definition cfg0 :: DIDApiConfig where
  "cfg0 = \<lparr>key = of_ascii ''secret'', url = of_ascii ''https://api.d-id.com''\<rparr>"

definition agent_ok :: response where
  "agent_ok =
     \<lparr>ok = True, status = 200, statusText = of_ascii ''OK'',
      body = Json \<lparr>j_preview_name = Some (of_ascii ''Ann''),
                   j_presenter = Some \<lparr>thumbnail = Some (of_ascii ''thumb.png''),
                                       idle_video = Some (of_ascii ''idle.mp4'')\<rparr>,
                   j_id = None, j_session_id = None, j_offer = None,
                   j_ice_servers = None, j_fluent = False\<rparr>\<rparr>"

definition stream_ok :: "bool \<Rightarrow> response" where
  "stream_ok fl =
     \<lparr>ok = True, status = 201, statusText = of_ascii ''Created'',
      body = Json \<lparr>j_preview_name = None, j_presenter = None,
                   j_id = Some (of_ascii ''s1''), j_session_id = Some (of_ascii ''sess1''),
                   j_offer = Some (of_ascii ''offer''), j_ice_servers = Some [],
                   j_fluent = fl\<rparr>\<rparr>"

definition plain_response :: "nat \<Rightarrow> response" where
  "plain_response st =
     \<lparr>ok = (200 \<le> st \<and> st < 300), status = st, statusText = [], body = NotJson\<rparr>"

text \<open>
  A server that answers the agent lookup, then the stream creation with the given fluent
  flag, then everything else with the given status.
\<close>

definition server :: "bool \<Rightarrow> nat \<Rightarrow> env" where
  "server fl st =
     \<lparr>net = (\<lambda>k rq. if k = 0 then Inr agent_ok
                     else if k = 1 then Inr (stream_ok fl)
                     else Inr (plain_response st)),
      negotiate = (\<lambda>offer. Inr (of_ascii ''answer''))\<rparr>"

text \<open>A network down for good: a 503 on even attempts, a rejected \<open>fetch\<close> on odd ones.\<close>

definition down :: env where
  "down =
     \<lparr>net = (\<lambda>k rq. if even k then Inr (plain_response 503) else Inl (NetworkError [])),
      negotiate = (\<lambda>offer. Inl (SignalingError []))\<rparr>"

text \<open>A server that answers every request with the given status and no body.\<close>

definition always :: "nat \<Rightarrow> env" where
  "always st =
     \<lparr>net = (\<lambda>k rq. Inr (plain_response st)),
      negotiate = (\<lambda>offer. Inl (SignalingError []))\<rparr>"

text \<open>The world after the first \<open>connect\<close> of the page against \<open>server fl st\<close>.\<close>

definition session0 :: "bool \<Rightarrow> world" where
  "session0 fl =
     \<lparr>hook = \<lparr>isStreamReady = False, isStreamPlaying = False, isFluent = fl,
               peerConnection = Some 0, streamId = Some (of_ascii ''s1''),
               sessionId = Some (of_ascii ''sess1''), apiConfig = Some cfg0\<rparr>,
      streamVideo =
        Some ((video_init 0)\<lparr>parent_backgroundImage :=
                 (if fl then Some []
                  else Some (of_ascii ''url('' @ of_ascii ''thumb.png'' @ of_ascii '')''))\<rparr>),
      idleVideo = Some ((video_init 1)\<lparr>src := (if fl then [] else of_ascii ''idle.mp4'')\<rparr>),
      pcs = [\<lparr>connectionState = New, iceServers = Some [], pc_isFluentMode = fl,
              pc_id = Some (of_ascii ''s1''), pc_session_id = Some (of_ascii ''sess1''),
              pc_apiConfig = cfg0, pc_render = hook_init\<lparr>apiConfig := Some cfg0\<rparr>\<rparr>],
      monitors = [],
      effects =
        [OnConnectionStatusChange StatusConnecting, Fetch (agent_request cfg0),
         OnAgentNameChange (Some (of_ascii ''Ann'')), Fetch (stream_request cfg0), NewPc 0,
         CreateDataChannel 0,
         Fetch (sdp_request cfg0 (Some (of_ascii ''s1'')) (Some (of_ascii ''sess1''))
                  (of_ascii ''answer''))]\<rparr>"

text \<open>That world once the connection has reported \<open>connected\<close>.\<close>

definition ready0 :: "bool \<Rightarrow> world" where
  "ready0 fl =
     (session0 fl)
       \<lparr>hook := (hook (session0 fl))\<lparr>isStreamReady := True\<rparr>,
        pcs := [(pcs (session0 fl) ! 0)\<lparr>connectionState := Connected\<rparr>],
        effects := effects (session0 fl)
                     @ [OnConnectionStatusChange StatusConnected, OnConnectionChange True]\<rparr>"

text \<open>The tracks \<open>stopStream\<close> stops: those of the stream bound to the stream video.\<close>

definition stopped_tracks :: "world \<Rightarrow> nat list" where
  "stopped_tracks w =
     (case streamVideo w of
        None \<Rightarrow> []
      | Some sv \<Rightarrow> (case srcObject sv of None \<Rightarrow> [] | Some stream \<Rightarrow> map fst stream))"

text \<open>The text deltas of one response, in order.\<close>

definition deltas :: "jsstring list \<Rightarrow> bridge \<Rightarrow> bridge" where
  "deltas ds b = foldl (\<lambda>b d. handleRealtimeMessage (ResponseTextDelta d) b) b ds"

text \<open>A bridge with the given text left in its buffer.\<close>

definition buffered :: "jsstring \<Rightarrow> bridge" where
  "buffered s = bridge_init\<lparr>currentResponseRef := s\<rparr>"

text \<open>
  A granted microphone and a configured key; and a bridge whose \<open>connect\<close> was called
  twice before the first socket opened, once the second socket has closed abnormally and
  the first has opened.
\<close>

definition mic :: bridge_env where
  "mic = \<lparr>getUserMedia = Some [(0, Audio)], apiKey = Some (of_ascii ''sk'')\<rparr>"

definition racing :: bridge where
  "racing =
     bridge_run mic [Close 1 1006, Open 0]
       (realtime_connect False mic (realtime_connect False mic bridge_init))"

text \<open>
  Some inbound video report of the list carries more bytes than the count recorded before
  it: the count of the inbound video report before it or, for the first, \<open>prev\<close>.
\<close>

fun increase_seen :: "nat \<Rightarrow> report list \<Rightarrow> bool" where
  "increase_seen prev [] = False"
| "increase_seen prev (rep # reps) =
     (if rep_type rep = InboundRtp \<and> rep_kind rep = Video
      then bytesReceived rep > prev \<or> increase_seen (bytesReceived rep) reps
      else increase_seen prev reps)"

text \<open>An inbound video report, a stream of one video and one audio track.\<close>

definition video_report :: "nat \<Rightarrow> report" where
  "video_report n = \<lparr>rep_type = InboundRtp, rep_kind = Video, bytesReceived = n\<rparr>"

definition av_stream :: media_stream where
  "av_stream = [(7, Video), (8, Audio)]"

text \<open>The first session once the track event of that stream has been handled.\<close>

definition tracked :: "bool \<Rightarrow> world" where
  "tracked fl = on_track 0 [av_stream] (session0 fl)"

text \<open>
  What a run of the interval over the reports leaves, from the byte count recorded, the
  playing state recorded and the playing flag of the hook: the three after the run.
\<close>

fun sampled :: "nat \<Rightarrow> bool \<Rightarrow> bool \<Rightarrow> report list \<Rightarrow> nat \<times> bool \<times> bool" where
  "sampled lb lp playing [] = (lb, lp, playing)"
| "sampled lb lp playing (rep # reps) =
     (if rep_type rep = InboundRtp \<and> rep_kind rep = Video
      then sampled (bytesReceived rep) (bytesReceived rep > lb)
             (if (bytesReceived rep > lb) \<noteq> lp then bytesReceived rep > lb else playing) reps
      else sampled lb lp playing reps)"


definition server3 :: env where
  "server3 =
     \<lparr>net = (\<lambda>k rq. if k mod 3 = 0 then Inr agent_ok
                     else if k mod 3 = 1 then Inr (stream_ok True)
                     else Inr (plain_response 200)),
      negotiate = (\<lambda>offer. Inr (of_ascii ''answer''))\<rparr>"

text \<open>The world in which \<open>connect\<close> hands the stream creation to \<open>fetchWithRetry\<close>.\<close>

definition before_stream :: "hook_state \<Rightarrow> DIDApiConfig \<Rightarrow> json \<Rightarrow> world \<Rightarrow> world" where
  "before_stream r cfg agentData w =
     onAgentNameChange (j_preview_name agentData)
       (emit (Fetch (agent_request cfg))
          (closeConnection r (stopStream (onConnectionStatusChange StatusConnecting w))))"

text \<open>
  Three calls of \<open>connect\<close> by the page against \<open>server3\<close>, the second connection failing
  before the third call.
\<close>

definition second :: world where
  "second = connect_now server3 (connect_now server3 (world_init cfg0))"

definition second_failed :: world where
  "second_failed = handle server3 (ConnectionStateChange 1 Failed) second"

definition third :: world where
  "third = connect_now server3 second_failed"

section \<open>Resilient fetch: the number of attempts\<close>

lemma requests_of_append: "requests_of (xs @ ys) = requests_of xs @ requests_of ys"
  by (induction xs rule: requests_of.induct) simp_all

lemma requests_emit_Fetch: "requests (emit (Fetch rq) w) = requests w @ [rq]"
  by (simp add: requests_def emit_def requests_of_append)

lemma requests_emit_Backoff: "requests (emit Backoff w) = requests w"
  by (simp add: requests_def emit_def requests_of_append)

lemma fetchWithRetry_all_failed:
  assumes "\<forall>k. failed (net ev k rq)"
  shows "requests (snd (fetchWithRetry ev rq (int n) w)) = requests w @ replicate (Suc n) rq
       \<and> fst (fetchWithRetry ev rq (int n) w) = net ev (length (requests w) + n) rq"
proof (induction n arbitrary: w)
  case 0
  show ?case
    using assms[rule_format, of "length (requests w)"]
    by (subst fetchWithRetry.simps, subst (2) fetchWithRetry.simps)
       (auto simp: fetch_def failed_def requests_emit_Fetch split: sum.splits)
next
  case (Suc n)
  let ?w1 = "emit Backoff (emit (Fetch rq) w)"
  have step: "fetchWithRetry ev rq (int (Suc n)) w = fetchWithRetry ev rq (int n) ?w1"
    using assms[rule_format, of "length (requests w)"]
    by (subst fetchWithRetry.simps) (auto simp: fetch_def failed_def split: sum.splits)
  have rq1: "requests ?w1 = requests w @ [rq]"
    by (simp add: requests_emit_Fetch requests_emit_Backoff)
  show ?case
    using Suc.IH[of ?w1] unfolding step by (simp add: rq1 replicate_app_Cons_same)
qed


text \<open>
  C1. With a retry budget \<open>N \<ge> 0\<close> and a network on which every attempt of the request
  fails (a response that is not \<open>ok\<close>, or a rejected \<open>fetch\<close>), \<open>fetchWithRetry\<close> issues the
  request exactly \<open>N + 1\<close> times, and its result is the outcome of the last attempt: that
  response returned (\<open>Inr\<close>), or that error thrown again (\<open>Inl\<close>).
\<close>

theorem fetchWithRetry_attempts:
  assumes "0 \<le> N" and "\<forall>k. failed (net ev k rq)"
  shows "requests (snd (fetchWithRetry ev rq N w)) = requests w @ replicate (nat N + 1) rq
       \<and> fst (fetchWithRetry ev rq N w) = net ev (length (requests w) + nat N) rq"
  using fetchWithRetry_all_failed[OF assms(2), of "nat N" w] assms(1) by simp

theorem fetchWithRetry_attempts_witness:
  "requests (snd (fetchWithRetry down (stream_request cfg0) 3 (world_init cfg0)))
     = replicate 4 (stream_request cfg0)
   \<and> fst (fetchWithRetry down (stream_request cfg0) 3 (world_init cfg0))
     = Inl (NetworkError [])"
proof -
  have f: "\<forall>k. failed (net down k (stream_request cfg0))"
    by (simp add: down_def failed_def plain_response_def)
  have z: "(0::int) \<le> 3" by simp
  show ?thesis
    using fetchWithRetry_attempts[OF z f, of "world_init cfg0"]
    by (simp add: requests_def world_init_def down_def)
qed

section \<open>What the callbacks change\<close>

lemmas setters = setIsStreamReady_def setIsStreamPlaying_def setIsFluent_def
  setPeerConnection_def setStreamId_def setSessionId_def onConnectionStatusChange_def
  onConnectionChange_def onAgentNameChange_def emit_def

lemma requests_of_StopTrack [simp]: "requests_of (map StopTrack ts) = []"
  by (induction ts) simp_all

lemma fetchWithRetry_world:
  "\<exists>es j. j \<le> nat n \<and> snd (fetchWithRetry ev rq n w) = w\<lparr>effects := effects w @ es\<rparr>
         \<and> requests_of es = replicate (Suc j) rq"
proof (induction ev rq n w rule: fetchWithRetry.induct)
  case (1 ev rq retries w)
  let ?w1 = "emit (Fetch rq) w"
  let ?o = "net ev (length (requests w)) rq"
  have f: "fetch ev rq w = (?o, ?w1)" by (simp add: fetch_def)
  define again where
    "again \<longleftrightarrow> retries > 0 \<and> (case ?o of Inl err \<Rightarrow> True | Inr res \<Rightarrow> \<not> ok res)"
  show ?case
  proof (cases again)
    case False
    then have "snd (fetchWithRetry ev rq retries w) = ?w1"
      by (subst fetchWithRetry.simps) (auto simp: f again_def split: sum.splits)
    then have "snd (fetchWithRetry ev rq retries w) = w\<lparr>effects := effects w @ [Fetch rq]\<rparr>
        \<and> requests_of [Fetch rq] = replicate (Suc 0) rq \<and> (0::nat) \<le> nat retries"
      by (simp add: emit_def)
    then show ?thesis by blast
  next
    case True
    then have pos: "retries > 0" by (simp add: again_def)
    have eq: "fetchWithRetry ev rq retries w
        = fetchWithRetry ev rq (retries - 1) (emit Backoff ?w1)"
      using True by (subst fetchWithRetry.simps) (auto simp: f again_def split: sum.splits)
    have "\<exists>es j. j \<le> nat (retries - 1)
        \<and> snd (fetchWithRetry ev rq (retries - 1) (emit Backoff ?w1))
            = (emit Backoff ?w1)\<lparr>effects := effects (emit Backoff ?w1) @ es\<rparr>
        \<and> requests_of es = replicate (Suc j) rq"
    proof (cases ?o)
      case (Inl err)
      show ?thesis using "1.IH"(1)[OF f[symmetric] Inl pos] .
    next
      case (Inr res)
      with True have nok: "\<not> ok res" by (simp add: again_def)
      show ?thesis using "1.IH"(2)[OF f[symmetric] Inr] nok pos by simp
    qed
    then obtain es j where j: "j \<le> nat (retries - 1)"
      and w: "snd (fetchWithRetry ev rq (retries - 1) (emit Backoff ?w1))
            = (emit Backoff ?w1)\<lparr>effects := effects (emit Backoff ?w1) @ es\<rparr>"
      and r: "requests_of es = replicate (Suc j) rq" by blast
    have "Suc j \<le> nat retries" using j pos by simp
    moreover have "snd (fetchWithRetry ev rq retries w)
        = w\<lparr>effects := effects w @ (Fetch rq # Backoff # es)\<rparr>"
      unfolding eq w by (simp add: emit_def)
    moreover have "requests_of (Fetch rq # Backoff # es) = replicate (Suc (Suc j)) rq"
      by (simp add: r)
    ultimately show ?thesis by blast
  qed
qed

lemma fetchWithRetry_ok:
  "net ev (length (requests w)) rq = Inr res \<Longrightarrow> ok res \<Longrightarrow>
   fetchWithRetry ev rq n w = (Inr res, emit (Fetch rq) w)"
  by (subst fetchWithRetry.simps) (simp add: fetch_def)

lemma fetch_D:
  "fetch ev rq w = (a, w1) \<Longrightarrow>
   w1 = w\<lparr>effects := effects w @ [Fetch rq]\<rparr> \<and> a = net ev (length (requests w)) rq"
  by (auto simp: fetch_def emit_def)

lemma fetchWithRetry_D:
  "fetchWithRetry ev rq n w = (a, w1) \<Longrightarrow>
   \<exists>es j. j \<le> nat n \<and> w1 = w\<lparr>effects := effects w @ es\<rparr>
      \<and> requests_of es = replicate (Suc j) rq"
  using fetchWithRetry_world[of n ev rq w] by simp

lemma prep_idle_D:
  "prep_idle ad sd w = Inr w4 \<Longrightarrow>
   pcs w4 = pcs w \<and> hook w4 = hook w \<and> effects w4 = effects w \<and> monitors w4 = monitors w"
  by (auto simp: prep_idle_def split: option.splits if_splits)

lemma prep_idle_fluent: "j_fluent sd \<Longrightarrow> prep_idle ad sd w = Inr w"
  by (simp add: prep_idle_def split: option.splits)


lemma pcs_new_pc:
  "pcs (new_pc r cfg sd w) = pcs w @
     [\<lparr>connectionState = New, iceServers = j_ice_servers sd,
       pc_isFluentMode = j_fluent sd, pc_id = j_id sd,
       pc_session_id = j_session_id sd, pc_apiConfig = cfg, pc_render = r\<rparr>]"
  by (simp add: new_pc_def Let_def setters)

lemma hook_new_pc: "peerConnection (hook (new_pc r cfg sd w)) = Some (length (pcs w))"
  by (simp add: new_pc_def Let_def setters)

lemma effects_new_pc:
  "effects (new_pc r cfg sd w)
     = effects w @ [NewPc (length (pcs w)), CreateDataChannel (length (pcs w))]"
  by (simp add: new_pc_def Let_def setters)

lemma pc_connected_status [simp]:
  "pc_connected r (onConnectionStatusChange t w) = pc_connected r w"
  by (simp add: pc_connected_def setters split: option.splits)

lemma effects_stopStream: "effects (stopStream w) = effects w @ map StopTrack (stopped_tracks w)"
  by (simp add: stopStream_def stopped_tracks_def split: option.splits)

lemma pcs_stopStream [simp]: "pcs (stopStream w) = pcs w"
  by (simp add: stopStream_def split: option.splits)

lemma hook_stopStream [simp]: "hook (stopStream w) = hook w"
  by (simp add: stopStream_def split: option.splits)

lemma effects_closeConnection:
  "effects (closeConnection r w) =
     effects w @ (case peerConnection r of None \<Rightarrow> [] | Some i \<Rightarrow> [ClosePc i])"
  by (simp add: closeConnection_def close_pc_def setters split: option.splits)

lemma requests_cleanup:
  "requests (closeConnection r (stopStream (onConnectionStatusChange t w))) = requests w"
  by (simp add: requests_def effects_closeConnection effects_stopStream requests_of_append
      setters split: option.splits)

lemma effects_cleanup:
  "effects (closeConnection r (stopStream (onConnectionStatusChange t w))) =
     effects w @ OnConnectionStatusChange t # map StopTrack (stopped_tracks w)
       @ (case peerConnection r of None \<Rightarrow> [] | Some i \<Rightarrow> [ClosePc i])"
  by (simp add: effects_closeConnection effects_stopStream setters stopped_tracks_def)

lemma connect_unfold:
  assumes "apiConfig r = Some cfg" and "\<not> pc_connected r w"
  shows "connect r ev w =
     (case connect_try r cfg ev
             (closeConnection r (stopStream (onConnectionStatusChange StatusConnecting w))) of
        (None, w2) \<Rightarrow> w2
      | (Some err, w2) \<Rightarrow>
          onConnectionChange False (onConnectionStatusChange StatusConnectionFailed w2))"
  using assms by (simp add: connect_def Let_def)

lemma requests_catch [simp]:
  "requests (onConnectionChange b (onConnectionStatusChange t w)) = requests w"
  by (simp add: requests_def setters requests_of_append)

section \<open>The first connect of the page\<close>

lemma cleanup_init:
  "closeConnection (hook (world_init c))
     (stopStream (onConnectionStatusChange StatusConnecting (world_init c)))
   = onConnectionStatusChange StatusConnecting (world_init c)"
  by (simp add: closeConnection_def stopStream_def world_init_def hook_init_def video_init_def
      setters)

lemma try_init:
  assumes "net ev 0 (agent_request cfg0) = Inr agent_ok"
    and "net ev 1 (stream_request cfg0) = Inr (stream_ok fl)"
    and "negotiate ev (Some (of_ascii ''offer'')) = Inr (of_ascii ''answer'')"
    and "\<exists>res. net ev 2 (sdp_request cfg0 (Some (of_ascii ''s1'')) (Some (of_ascii ''sess1''))
            (of_ascii ''answer'')) = Inr res"
  shows "connect_try (hook (world_init cfg0)) cfg0 ev
      (onConnectionStatusChange StatusConnecting (world_init cfg0)) = (None, session0 fl)"
proof -
  let ?w = "onConnectionStatusChange StatusConnecting (world_init cfg0)"
  let ?w1 = "onAgentNameChange (Some (of_ascii ''Ann'')) (emit (Fetch (agent_request cfg0)) ?w)"
  let ?w2 = "emit (Fetch (stream_request cfg0)) ?w1"
  let ?sd = "\<lparr>j_preview_name = None, j_presenter = None,
              j_id = Some (of_ascii ''s1''), j_session_id = Some (of_ascii ''sess1''),
              j_offer = Some (of_ascii ''offer''), j_ice_servers = Some [], j_fluent = fl\<rparr>"
  have l0: "length (requests ?w) = 0"
    by (simp add: requests_def setters world_init_def)
  have a: "fetch ev (agent_request cfg0) ?w
      = (Inr agent_ok, emit (Fetch (agent_request cfg0)) ?w)"
    by (simp add: fetch_def l0 assms(1))
  have l1: "length (requests ?w1) = 1"
    by (simp add: requests_def setters world_init_def)
  have s: "fetchWithRetry ev (stream_request cfg0) 3 ?w1 = (Inr (stream_ok fl), ?w2)"
  proof (rule fetchWithRetry_ok)
    show "net ev (length (requests ?w1)) (stream_request cfg0) = Inr (stream_ok fl)"
      unfolding l1 by (rule assms(2))
    show "ok (stream_ok fl)" by (simp add: stream_ok_def)
  qed
  define w4 where "w4 = (if fl then setIsFluent fl (setSessionId (Some (of_ascii ''sess1''))
           (setStreamId (Some (of_ascii ''s1'')) ?w2))
      else (setIsFluent fl (setSessionId (Some (of_ascii ''sess1''))
           (setStreamId (Some (of_ascii ''s1'')) ?w2)))
        \<lparr>streamVideo := Some ((video_init 0)\<lparr>parent_backgroundImage :=
             Some (of_ascii ''url('' @ of_ascii ''thumb.png'' @ of_ascii '')'')\<rparr>),
         idleVideo := Some ((video_init 1)\<lparr>src := of_ascii ''idle.mp4''\<rparr>)\<rparr>)"
  have p: "prep_idle
        \<lparr>j_preview_name = Some (of_ascii ''Ann''),
          j_presenter = Some \<lparr>thumbnail = Some (of_ascii ''thumb.png''),
                              idle_video = Some (of_ascii ''idle.mp4'')\<rparr>,
          j_id = None, j_session_id = None, j_offer = None,
          j_ice_servers = None, j_fluent = False\<rparr> ?sd
        (setIsFluent fl (setSessionId (Some (of_ascii ''sess1''))
           (setStreamId (Some (of_ascii ''s1'')) ?w2))) = Inr w4"
    by (simp add: w4_def prep_idle_def setters world_init_def video_init_def template_def)
  have l2: "length (requests (new_pc (hook (world_init cfg0)) cfg0 ?sd w4)) = 2"
    using prep_idle_D[OF p]
    by (simp add: requests_def new_pc_def Let_def setters world_init_def)
  obtain res where n: "net ev 2 (sdp_request cfg0 (Some (of_ascii ''s1''))
      (Some (of_ascii ''sess1'')) (of_ascii ''answer'')) = Inr res"
    using assms(4) by blast
  have "connect_try (hook (world_init cfg0)) cfg0 ev ?w
      = (None, emit (Fetch (sdp_request cfg0 (Some (of_ascii ''s1''))
            (Some (of_ascii ''sess1'')) (of_ascii ''answer'')))
          (new_pc (hook (world_init cfg0)) cfg0 ?sd w4))"
    unfolding connect_try_def a
    by (simp add: agent_ok_def s, simp add: stream_ok_def p assms(3) fetch_def l2 n)
  also have "emit (Fetch (sdp_request cfg0 (Some (of_ascii ''s1''))
            (Some (of_ascii ''sess1'')) (of_ascii ''answer'')))
          (new_pc (hook (world_init cfg0)) cfg0 ?sd w4) = session0 fl"
    unfolding w4_def
    by (cases fl)
       (simp_all add: new_pc_def setters Let_def session0_def world_init_def hook_init_def
          video_init_def)
  finally show ?thesis .
qed

lemma apiConfig_init: "apiConfig (hook (world_init c)) = Some c"
  by (simp add: world_init_def hook_init_def)

lemma not_connected_init: "\<not> pc_connected (hook (world_init c)) w"
  by (simp add: pc_connected_def world_init_def hook_init_def)

lemma connect_init_from:
  assumes "net ev 0 (agent_request cfg0) = Inr agent_ok"
    and "net ev 1 (stream_request cfg0) = Inr (stream_ok fl)"
    and "negotiate ev (Some (of_ascii ''offer'')) = Inr (of_ascii ''answer'')"
    and "\<exists>res. net ev 2 (sdp_request cfg0 (Some (of_ascii ''s1'')) (Some (of_ascii ''sess1''))
            (of_ascii ''answer'')) = Inr res"
  shows "connect (hook (world_init cfg0)) ev (world_init cfg0) = session0 fl"
  by (simp add: connect_def apiConfig_init not_connected_init cleanup_init try_init[OF assms])


lemma requests_session0:
  "requests (session0 fl)
     = [agent_request cfg0, stream_request cfg0,
        sdp_request cfg0 (Some (of_ascii ''s1'')) (Some (of_ascii ''sess1'')) (of_ascii ''answer'')]"
  by (simp add: requests_def session0_def)

lemma requests_init [simp]: "requests (world_init c) = []"
  by (simp add: requests_def world_init_def)

lemma handle_connected:
  "handle ev (ConnectionStateChange 0 Connected) (session0 fl) = ready0 fl"
  by (simp add: pc_open_def on_connectionstatechange_def Let_def setters session0_def ready0_def)

lemma connect_connected:
  "pc_connected r w \<Longrightarrow>
   connect r ev w
     = (if apiConfig r = None then w else onConnectionStatusChange StatusConnecting w)"
  by (auto simp: connect_def Let_def split: option.splits)

section \<open>Which requests of the handshake are retried\<close>

lemma requests_setters [simp]:
  "requests (setIsFluent b w) = requests w"
  "requests (setSessionId x w) = requests w"
  "requests (setStreamId x w) = requests w"
  "requests (onAgentNameChange n w) = requests w"
  "requests (new_pc r cfg sd w) = requests w"
  by (simp_all add: requests_def setters new_pc_def Let_def requests_of_append)



lemma requests_before_stream:
  "requests (before_stream r cfg ad w) = requests w @ [agent_request cfg]"
  by (simp add: before_stream_def requests_emit_Fetch requests_cleanup)

text \<open>After an agent lookup that succeeded, the \<open>try\<close> block is the stream creation and what follows.\<close>

lemma connect_try_after_agent:
  assumes "net ev (length (requests w)) (agent_request cfg) = Inr ra" and "ok ra"
    and "body ra = Json ad"
    and "fetchWithRetry ev (stream_request cfg) 3 (before_stream r cfg ad w) = (x, w2)"
  shows "connect_try r cfg ev
           (closeConnection r (stopStream (onConnectionStatusChange StatusConnecting w)))
         = (case x of
              Inl err \<Rightarrow> (Some err, w2)
            | Inr resStream \<Rightarrow>
                if \<not> ok resStream
                then (Some (StreamCreateFailed (status resStream) (statusText resStream)), w2)
                else
                  (case body resStream of
                     NotJson \<Rightarrow> (Some JsonError, w2)
                   | JsonNull \<Rightarrow> (Some TypeError, w2)
                   | Json sd \<Rightarrow>
                       (case prep_idle ad sd
                               (setIsFluent (j_fluent sd)
                                  (setSessionId (j_session_id sd) (setStreamId (j_id sd) w2))) of
                          Inl err \<Rightarrow>
                            (Some err,
                             setIsFluent (j_fluent sd)
                               (setSessionId (j_session_id sd) (setStreamId (j_id sd) w2)))
                        | Inr w4 \<Rightarrow>
                            (case negotiate ev (j_offer sd) of
                               Inl err \<Rightarrow> (Some err, new_pc r cfg sd w4)
                             | Inr answer \<Rightarrow>
                                 (case fetch ev
                                         (sdp_request cfg (j_id sd) (j_session_id sd) answer)
                                         (new_pc r cfg sd w4) of
                                    (Inl err, w6) \<Rightarrow> (Some err, w6)
                                  | (Inr resSdp, w6) \<Rightarrow> (None, w6))))))"
  using assms(1,2,3) assms(4)[unfolded before_stream_def]
  by (auto simp: connect_try_def fetch_def requests_cleanup Let_def
      split: sum.splits response_body.splits prod.splits)





section \<open>A failed agent lookup\<close>

text \<open>
  C7. When the configuration is loaded, no connection reports \<open>connected\<close>, and the agent
  lookup is answered by a response that is not \<open>ok\<close>: \<open>connect\<close> issues that one request
  and no other (no stream creation, no second lookup); the error is thrown inside the
  \<open>try\<close> block and caught, so \<open>connect\<close> returns; its last two callbacks are the status
  \<open>Connection failed\<close> and the connection change \<open>false\<close>.
\<close>

theorem connect_agent_info_failed:
  assumes "apiConfig r = Some cfg" and "\<not> pc_connected r w"
    and "net ev (length (requests w)) (agent_request cfg) = Inr res" and "\<not> ok res"
  shows "requests (connect r ev w) = requests w @ [agent_request cfg]
       \<and> effects (connect r ev w) =
           effects (closeConnection r (stopStream (onConnectionStatusChange StatusConnecting w)))
           @ [Fetch (agent_request cfg), OnConnectionStatusChange StatusConnectionFailed,
              OnConnectionChange False]
       \<and> fst (connect_try r cfg ev
                (closeConnection r (stopStream (onConnectionStatusChange StatusConnecting w))))
           = Some (AgentInfoFailed (status res) (statusText res))"
proof -
  let ?w2 = "closeConnection r (stopStream (onConnectionStatusChange StatusConnecting w))"
  have t: "connect_try r cfg ev ?w2
      = (Some (AgentInfoFailed (status res) (statusText res)), emit (Fetch (agent_request cfg)) ?w2)"
    using assms(3,4) by (simp add: connect_try_def fetch_def requests_cleanup)
  have c: "connect r ev w = onConnectionChange False
      (onConnectionStatusChange StatusConnectionFailed (emit (Fetch (agent_request cfg)) ?w2))"
    using assms(1,2) by (simp add: connect_def t Let_def)
  have e: "effects (connect r ev w) = effects ?w2 @ [Fetch (agent_request cfg),
      OnConnectionStatusChange StatusConnectionFailed, OnConnectionChange False]"
    by (simp add: c setters)
  have "requests (connect r ev w) = requests ?w2 @ [agent_request cfg]"
    by (simp add: requests_def e requests_of_append)
  then show ?thesis using e t by (simp add: requests_cleanup)
qed

theorem connect_agent_info_failed_witness:
  "requests (connect (hook (world_init cfg0)) (always 404) (world_init cfg0))
     = [agent_request cfg0]
   \<and> effects (connect (hook (world_init cfg0)) (always 404) (world_init cfg0))
     = [OnConnectionStatusChange StatusConnecting, Fetch (agent_request cfg0),
        OnConnectionStatusChange StatusConnectionFailed, OnConnectionChange False]"
proof -
  have n: "net (always 404) (length (requests (world_init cfg0))) (agent_request cfg0)
      = Inr (plain_response 404)"
    by (simp add: always_def)
  have k: "\<not> ok (plain_response 404)"
    by (simp add: plain_response_def)
  show ?thesis
    using connect_agent_info_failed[OF apiConfig_init not_connected_init n k,
        unfolded cleanup_init requests_init]
    by (simp add: setters world_init_def)
qed

section \<open>Successive connects\<close>

text \<open>
  A \<open>connect\<close> that passes its guards against a server that answers the agent lookup, the
  stream creation (fluent) and the SDP answer: what it leaves behind.
\<close>

lemma connect_creates:
  assumes "apiConfig r = Some cfg" and "\<not> pc_connected r w"
    and "net ev (length (requests w)) (agent_request cfg) = Inr ra" and "ok ra"
    and "body ra = Json ad"
    and "net ev (Suc (length (requests w))) (stream_request cfg) = Inr rs" and "ok rs"
    and "body rs = Json sd" and "j_fluent sd" and "negotiate ev (j_offer sd) = Inr answer"
    and "net ev (Suc (Suc (length (requests w))))
           (sdp_request cfg (j_id sd) (j_session_id sd) answer) = Inr r3"
  shows "connect r ev w
       = emit (Fetch (sdp_request cfg (j_id sd) (j_session_id sd) answer))
           (new_pc r cfg sd
              (setIsFluent True (setSessionId (j_session_id sd) (setStreamId (j_id sd)
                 (emit (Fetch (stream_request cfg)) (before_stream r cfg ad w))))))"
proof -
  let ?w1 = "before_stream r cfg ad w"
  let ?w2 = "emit (Fetch (stream_request cfg)) ?w1"
  let ?w3 = "setIsFluent True (setSessionId (j_session_id sd) (setStreamId (j_id sd) ?w2))"
  have l: "length (requests ?w1) = Suc (length (requests w))"
    by (simp add: requests_before_stream)
  have F: "fetchWithRetry ev (stream_request cfg) 3 ?w1 = (Inr rs, ?w2)"
    by (rule fetchWithRetry_ok) (simp_all add: l assms(6,7))
  have p: "prep_idle ad sd ?w3 = Inr ?w3"
    by (rule prep_idle_fluent[OF assms(9)])
  have t: "connect_try r cfg ev
             (closeConnection r (stopStream (onConnectionStatusChange StatusConnecting w)))
         = (None, emit (Fetch (sdp_request cfg (j_id sd) (j_session_id sd) answer))
                     (new_pc r cfg sd ?w3))"
    unfolding connect_try_after_agent[OF assms(3,4,5) F]
    using assms(7,8,9,10,11)
    by (simp add: p fetch_def requests_emit_Fetch requests_before_stream)
  show ?thesis
    by (simp add: connect_unfold[OF assms(1,2)] t)
qed

lemma pcs_before_stream: "pcs (before_stream r cfg ad w) = pcs (closeConnection r w)"
  by (simp add: before_stream_def closeConnection_def close_pc_def setters split: option.splits)

lemma hook_before_stream: "hook (before_stream r cfg ad w) = hook (closeConnection r w)"
  by (simp add: before_stream_def closeConnection_def close_pc_def setters split: option.splits)

lemma length_pcs_closeConnection [simp]: "length (pcs (closeConnection r w)) = length (pcs w)"
  by (simp add: closeConnection_def close_pc_def setters split: option.splits)

lemma apiConfig_closeConnection [simp]:
  "apiConfig (hook (closeConnection r w)) = apiConfig (hook w)"
  by (simp add: closeConnection_def close_pc_def setters split: option.splits)

lemma connect_creates_state:
  assumes "apiConfig r = Some cfg" and "\<not> pc_connected r w"
    and "net ev (length (requests w)) (agent_request cfg) = Inr ra" and "ok ra"
    and "body ra = Json ad"
    and "net ev (Suc (length (requests w))) (stream_request cfg) = Inr rs" and "ok rs"
    and "body rs = Json sd" and "j_fluent sd" and "negotiate ev (j_offer sd) = Inr answer"
    and "net ev (Suc (Suc (length (requests w))))
           (sdp_request cfg (j_id sd) (j_session_id sd) answer) = Inr r3"
  shows "pcs (connect r ev w) = pcs (closeConnection r w) @
           [\<lparr>connectionState = New, iceServers = j_ice_servers sd,
             pc_isFluentMode = True, pc_id = j_id sd,
             pc_session_id = j_session_id sd, pc_apiConfig = cfg, pc_render = r\<rparr>]"
    and "peerConnection (hook (connect r ev w)) = Some (length (pcs w))"
    and "apiConfig (hook (connect r ev w)) = apiConfig (hook w)"
    and "requests (connect r ev w)
           = requests w @ [agent_request cfg, stream_request cfg,
                           sdp_request cfg (j_id sd) (j_session_id sd) answer]"
proof -
  note c = connect_creates[OF assms]
  let ?w3 = "setIsFluent True (setSessionId (j_session_id sd) (setStreamId (j_id sd)
                 (emit (Fetch (stream_request cfg)) (before_stream r cfg ad w))))"
  have q: "pcs ?w3 = pcs (closeConnection r w)"
    using pcs_before_stream[of r cfg ad w] by (simp add: setters)
  have h: "apiConfig (hook ?w3) = apiConfig (hook w)"
    using hook_before_stream[of r cfg ad w] by (simp add: setters)
  show "pcs (connect r ev w) = pcs (closeConnection r w) @
           [\<lparr>connectionState = New, iceServers = j_ice_servers sd,
             pc_isFluentMode = True, pc_id = j_id sd,
             pc_session_id = j_session_id sd, pc_apiConfig = cfg, pc_render = r\<rparr>]"
  proof -
    have "pcs (connect r ev w) = pcs (new_pc r cfg sd ?w3)"
      unfolding c by (simp add: emit_def)
    then show ?thesis
      unfolding pcs_new_pc q using assms(9) by simp
  qed
  show "peerConnection (hook (connect r ev w)) = Some (length (pcs w))"
  proof -
    have "hook (connect r ev w) = hook (new_pc r cfg sd ?w3)"
      unfolding c by (simp add: emit_def)
    then show ?thesis
      by (simp add: hook_new_pc q)
  qed
  show "apiConfig (hook (connect r ev w)) = apiConfig (hook w)"
    unfolding c using h by (simp add: new_pc_def Let_def setters)
  show "requests (connect r ev w)
           = requests w @ [agent_request cfg, stream_request cfg,
                           sdp_request cfg (j_id sd) (j_session_id sd) answer]"
    unfolding c by (simp add: requests_emit_Fetch requests_before_stream)
qed

text \<open>The three calls against \<open>server3\<close>, one after the other.\<close>

lemma server3_answers:
  "k mod 3 = 0 \<Longrightarrow> net server3 k rq = Inr agent_ok"
  "k mod 3 = 1 \<Longrightarrow> net server3 k rq = Inr (stream_ok True)"
  "k mod 3 = 2 \<Longrightarrow> net server3 k rq = Inr (plain_response 200)"
  "negotiate server3 offer = Inr (of_ascii ''answer'')"
  by (simp_all add: server3_def)

lemma agent_ok_body:
  "ok agent_ok"
  "body agent_ok = Json \<lparr>j_preview_name = Some (of_ascii ''Ann''),
              j_presenter = Some \<lparr>thumbnail = Some (of_ascii ''thumb.png''),
                                  idle_video = Some (of_ascii ''idle.mp4'')\<rparr>,
              j_id = None, j_session_id = None, j_offer = None,
              j_ice_servers = None, j_fluent = False\<rparr>"
  by (simp_all add: agent_ok_def)

lemma stream_ok_body:
  "ok (stream_ok fl)"
  "body (stream_ok fl) = Json \<lparr>j_preview_name = None, j_presenter = None,
              j_id = Some (of_ascii ''s1''), j_session_id = Some (of_ascii ''sess1''),
              j_offer = Some (of_ascii ''offer''), j_ice_servers = Some [], j_fluent = fl\<rparr>"
  by (simp_all add: stream_ok_def)

lemma first_connect: "connect_now server3 (world_init cfg0) = session0 True"
  unfolding connect_now_def
  by (rule connect_init_from) (simp_all add: server3_def)

lemma second_state:
  "pcs second =
     [\<lparr>connectionState = Closed, iceServers = Some [], pc_isFluentMode = True,
       pc_id = Some (of_ascii ''s1''), pc_session_id = Some (of_ascii ''sess1''),
       pc_apiConfig = cfg0, pc_render = hook_init\<lparr>apiConfig := Some cfg0\<rparr>\<rparr>,
      \<lparr>connectionState = New, iceServers = Some [], pc_isFluentMode = True,
       pc_id = Some (of_ascii ''s1''), pc_session_id = Some (of_ascii ''sess1''),
       pc_apiConfig = cfg0, pc_render = hook (session0 True)\<rparr>]"
  "peerConnection (hook second) = Some 1"
  "apiConfig (hook second) = Some cfg0"
  "length (requests second) = 6"
proof -
  let ?w = "session0 True"
  have a: "apiConfig (hook ?w) = Some cfg0" and n: "\<not> pc_connected (hook ?w) ?w"
    by (simp_all add: session0_def pc_connected_def)
  have l: "length (requests ?w) = 3"
    by (simp add: requests_session0)
  have s: "second = connect (hook ?w) server3 ?w"
    unfolding second_def first_connect by (simp add: connect_now_def)
  note c = connect_creates_state[OF a n server3_answers(1) agent_ok_body
      server3_answers(2) stream_ok_body _ server3_answers(4) server3_answers(3),
      unfolded l, folded s]
  show "pcs second =
     [\<lparr>connectionState = Closed, iceServers = Some [], pc_isFluentMode = True,
       pc_id = Some (of_ascii ''s1''), pc_session_id = Some (of_ascii ''sess1''),
       pc_apiConfig = cfg0, pc_render = hook_init\<lparr>apiConfig := Some cfg0\<rparr>\<rparr>,
      \<lparr>connectionState = New, iceServers = Some [], pc_isFluentMode = True,
       pc_id = Some (of_ascii ''s1''), pc_session_id = Some (of_ascii ''sess1''),
       pc_apiConfig = cfg0, pc_render = hook (session0 True)\<rparr>]"
    by (subst c(1)) (simp_all add: closeConnection_def close_pc_def setters session0_def)
  show "peerConnection (hook second) = Some 1"
    by (subst c(2)) (simp_all add: session0_def)
  show "apiConfig (hook second) = Some cfg0"
    by (subst c(3)) (simp_all add: session0_def)
  show "length (requests second) = 6"
    by (subst c(4)) (simp_all add: l)
qed

lemma second_failed_state:
  "pcs second_failed =
     [\<lparr>connectionState = Closed, iceServers = Some [], pc_isFluentMode = True,
       pc_id = Some (of_ascii ''s1''), pc_session_id = Some (of_ascii ''sess1''),
       pc_apiConfig = cfg0, pc_render = hook_init\<lparr>apiConfig := Some cfg0\<rparr>\<rparr>,
      \<lparr>connectionState = Failed, iceServers = Some [], pc_isFluentMode = True,
       pc_id = Some (of_ascii ''s1''), pc_session_id = Some (of_ascii ''sess1''),
       pc_apiConfig = cfg0, pc_render = hook (session0 True)\<rparr>]"
  "peerConnection (hook second_failed) = None"
  "apiConfig (hook second_failed) = Some cfg0"
  "length (requests second_failed) = 6"
  "effects second_failed = effects second @ map StopTrack (stopped_tracks second) @ [ClosePc 0]"
proof -
  have h: "peerConnection (hook (session0 True)) = Some 0"
    by (simp add: session0_def)
  have e: "second_failed
    = closeConnection (hook (session0 True))
        (stopStream (second\<lparr>pcs := (pcs second)[1 := (pcs second ! 1)\<lparr>connectionState := Failed\<rparr>]\<rparr>))"
    by (simp add: second_failed_def pc_open_def on_connectionstatechange_def Let_def
        second_state(1))
  show "pcs second_failed =
     [\<lparr>connectionState = Closed, iceServers = Some [], pc_isFluentMode = True,
       pc_id = Some (of_ascii ''s1''), pc_session_id = Some (of_ascii ''sess1''),
       pc_apiConfig = cfg0, pc_render = hook_init\<lparr>apiConfig := Some cfg0\<rparr>\<rparr>,
      \<lparr>connectionState = Failed, iceServers = Some [], pc_isFluentMode = True,
       pc_id = Some (of_ascii ''s1''), pc_session_id = Some (of_ascii ''sess1''),
       pc_apiConfig = cfg0, pc_render = hook (session0 True)\<rparr>]"
    unfolding e by (simp add: closeConnection_def close_pc_def setters h second_state(1))
  show "peerConnection (hook second_failed) = None"
    unfolding e by (simp add: closeConnection_def close_pc_def setters h)
  show "apiConfig (hook second_failed) = Some cfg0"
    unfolding e by (simp add: second_state(3))
  show ef: "effects second_failed
      = effects second @ map StopTrack (stopped_tracks second) @ [ClosePc 0]"
    unfolding e by (simp add: effects_closeConnection effects_stopStream h stopped_tracks_def)
  show "length (requests second_failed) = 6"
    using second_state(4) by (simp add: requests_def ef requests_of_append)
qed

lemma third_state:
  "pcs third =
     [\<lparr>connectionState = Closed, iceServers = Some [], pc_isFluentMode = True,
       pc_id = Some (of_ascii ''s1''), pc_session_id = Some (of_ascii ''sess1''),
       pc_apiConfig = cfg0, pc_render = hook_init\<lparr>apiConfig := Some cfg0\<rparr>\<rparr>,
      \<lparr>connectionState = Failed, iceServers = Some [], pc_isFluentMode = True,
       pc_id = Some (of_ascii ''s1''), pc_session_id = Some (of_ascii ''sess1''),
       pc_apiConfig = cfg0, pc_render = hook (session0 True)\<rparr>,
      \<lparr>connectionState = New, iceServers = Some [], pc_isFluentMode = True,
       pc_id = Some (of_ascii ''s1''), pc_session_id = Some (of_ascii ''sess1''),
       pc_apiConfig = cfg0, pc_render = hook second_failed\<rparr>]"
  "peerConnection (hook third) = Some 2"
proof -
  let ?w = second_failed
  have n: "\<not> pc_connected (hook ?w) ?w"
    by (simp add: pc_connected_def second_failed_state(2))
  have s: "third = connect (hook ?w) server3 ?w"
    by (simp add: third_def connect_now_def)
  note c = connect_creates_state[OF second_failed_state(3) n server3_answers(1) agent_ok_body
      server3_answers(2) stream_ok_body _ server3_answers(4) server3_answers(3),
      unfolded second_failed_state(4), folded s]
  show "pcs third =
     [\<lparr>connectionState = Closed, iceServers = Some [], pc_isFluentMode = True,
       pc_id = Some (of_ascii ''s1''), pc_session_id = Some (of_ascii ''sess1''),
       pc_apiConfig = cfg0, pc_render = hook_init\<lparr>apiConfig := Some cfg0\<rparr>\<rparr>,
      \<lparr>connectionState = Failed, iceServers = Some [], pc_isFluentMode = True,
       pc_id = Some (of_ascii ''s1''), pc_session_id = Some (of_ascii ''sess1''),
       pc_apiConfig = cfg0, pc_render = hook (session0 True)\<rparr>,
      \<lparr>connectionState = New, iceServers = Some [], pc_isFluentMode = True,
       pc_id = Some (of_ascii ''s1''), pc_session_id = Some (of_ascii ''sess1''),
       pc_apiConfig = cfg0, pc_render = hook second_failed\<rparr>]"
    by (subst c(1))
      (simp_all add: closeConnection_def second_failed_state(1) second_failed_state(2))
  show "peerConnection (hook third) = Some 2"
    by (subst c(2)) (simp_all add: second_failed_state(1))
qed

lemma upt_3: "[0..<3] = [0, 1, 2]" and upt_2: "[0..<2] = [0, 1]"
  by (simp_all add: upt_rec)

text \<open>
  C6 does not hold of the code. The page calls \<open>connect\<close>, calls it again, the second
  connection reports \<open>failed\<close>, and the page calls \<open>connect\<close> a third time. The
  \<open>connectionstatechange\<close> listener of connection 1 calls the \<open>closeConnection\<close> of the
  render that created it, which held connection 0: it closes connection 0 once more,
  resets the hook's \<open>peerConnection\<close>, and leaves connection 1, the failed one, unclosed.
  The third call then holds no connection, closes none, and creates connection 2: after
  this pair of successive calls, connections 1 and 2 are both not closed.
\<close>

theorem connect_leaves_two_transports:
  "live second = [1]
   \<and> peerConnection (hook second) = Some 1
   \<and> map connectionState (pcs second_failed) = [Closed, Failed]
   \<and> peerConnection (hook second_failed) = None
   \<and> effects second_failed = effects second @ map StopTrack (stopped_tracks second) @ [ClosePc 0]
   \<and> map connectionState (pcs third) = [Closed, Failed, New]
   \<and> peerConnection (hook third) = Some 2
   \<and> live third = [1, 2]"
proof -
  have 1: "live second = [1]"
    by (simp add: live_def second_state(1) upt_2)
  have 2: "live third = [1, 2]"
    by (simp add: live_def third_state(1) upt_3)
  show ?thesis
    using 1 2 second_state(2) second_failed_state(2) second_failed_state(5) third_state(2)
    by (simp add: second_failed_state(1) third_state(1))
qed

section \<open>Speak\<close>

lemma all_dropWhile: "(\<forall>x\<in>set (dropWhile P s). P x) \<longleftrightarrow> (\<forall>c\<in>set s. P c)"
  by (induction s) auto

lemma trim_Nil_iff: "trim s = [] \<longleftrightarrow> (\<forall>c\<in>set s. is_ws c)"
  by (simp add: trim_def dropWhile_eq_Nil_conv all_dropWhile)

lemma speak_noop:
  "peerConnection r = None \<or> \<not> isStreamReady r \<or> apiConfig r = None \<or> falsy (streamId r)
     \<or> falsy (sessionId r) \<or> trim message = [] \<Longrightarrow> speak r message ev w = (None, w)"
  by (auto simp: speak_def Let_def)

lemma speak_posts:
  assumes "peerConnection r \<noteq> None" "isStreamReady r" "apiConfig r = Some cfg"
    "streamId r = Some sid" "sid \<noteq> []" "sessionId r = Some sess" "sess \<noteq> []"
    "trim message \<noteq> []"
  shows "snd (speak r message ev w)
           = snd (fetchWithRetry ev (speak_request cfg sid sess (trim message)) 3 w)"
  using assms by (auto simp: speak_def Let_def falsy_def split: prod.splits sum.splits)

lemma fetchWithRetry_requests:
  "\<exists>j\<le>nat n. requests (snd (fetchWithRetry ev rq n w)) = requests w @ replicate (Suc j) rq"
proof -
  obtain es j where "j \<le> nat n" "snd (fetchWithRetry ev rq n w) = w\<lparr>effects := effects w @ es\<rparr>"
    "requests_of es = replicate (Suc j) rq"
    using fetchWithRetry_world[of n ev rq w] by blast
  then have "j \<le> nat n \<and> requests (snd (fetchWithRetry ev rq n w)) = requests w @ replicate (Suc j) rq"
    by (simp add: requests_def requests_of_append)
  then show ?thesis by blast
qed

text \<open>
  C8, amended. \<open>speak\<close> issues no request and changes nothing when there is no peer
  connection, the stream is not ready, the configuration is not loaded, the stream or
  session identifier is missing or empty, or the text is empty or all whitespace.
  Otherwise it hands one request to \<open>fetchWithRetry\<close> with the default budget (one to four
  attempts): a POST to the stream endpoint whose body is
  \<open>{script: {type: 'text', input}, session_id}\<close> with the trimmed text as input.
\<close>

theorem speak_requests:
  "(peerConnection r = None \<or> \<not> isStreamReady r \<or> apiConfig r = None \<or> falsy (streamId r)
      \<or> falsy (sessionId r) \<or> (\<forall>c\<in>set message. is_ws c) \<longrightarrow> speak r message ev w = (None, w))
   \<and> (peerConnection r \<noteq> None \<and> isStreamReady r \<and> apiConfig r = Some cfg
        \<and> streamId r = Some sid \<and> sid \<noteq> [] \<and> sessionId r = Some sess \<and> sess \<noteq> []
        \<and> trim message \<noteq> [] \<longrightarrow>
        snd (speak r message ev w)
          = snd (fetchWithRetry ev (speak_request cfg sid sess (trim message)) 3 w)
        \<and> (\<exists>j\<le>3. requests (snd (speak r message ev w))
              = requests w @ replicate (Suc j) (speak_request cfg sid sess (trim message))))"
proof -
  have "\<exists>j\<le>3. requests (snd (fetchWithRetry ev rq 3 w)) = requests w @ replicate (Suc j) rq" for rq
    using fetchWithRetry_requests[of 3 ev rq w] by simp
  then show ?thesis
    using speak_noop[of r message ev w] speak_posts[of r cfg sid sess message ev w]
    by (simp add: trim_Nil_iff)
qed

lemma trim_hi: "trim (of_ascii '' hi '') = of_ascii ''hi''"
  by (simp add: trim_def of_ascii_def is_ws_def)

lemma trim_hi2: "trim (of_ascii ''hi'') = of_ascii ''hi''"
  by (simp add: trim_def of_ascii_def is_ws_def)

lemma hook_ready0:
  "hook (ready0 fl) = \<lparr>isStreamReady = True, isStreamPlaying = False, isFluent = fl,
               peerConnection = Some 0, streamId = Some (of_ascii ''s1''),
               sessionId = Some (of_ascii ''sess1''), apiConfig = Some cfg0\<rparr>"
  by (simp add: ready0_def session0_def)

lemma requests_ready0: "requests (ready0 fl) = requests (session0 fl)"
  by (simp add: requests_def ready0_def requests_of_append)

lemma speak_ready0:
  "trim message \<noteq> [] \<Longrightarrow>
   speak (hook (ready0 fl)) message (server fl' 200) (ready0 fl)
     = (None, emit (Fetch (speak_request cfg0 (of_ascii ''s1'') (of_ascii ''sess1'') (trim message))) (ready0 fl))"
  apply (simp add: speak_def hook_ready0 falsy_def of_ascii_def Let_def)
  apply (subst fetchWithRetry_ok[where res="plain_response 200"])
    apply (simp_all add: requests_ready0 requests_session0 server_def plain_response_def)
  done

text \<open>
  C8, as stated, fails. On the ready session \<open>ready0 True\<close> the text \<open>' hi '\<close> is posted
  as \<open>'hi'\<close>, not as given; and with a peer connection, a ready stream and the text
  \<open>'hi'\<close>, but an empty stream identifier, nothing is posted.
\<close>

theorem speak_sends_trimmed_text:
  "requests (snd (speak (hook (ready0 True)) (of_ascii '' hi '') (server True 200) (ready0 True)))
     = requests (ready0 True)
       @ [speak_request cfg0 (of_ascii ''s1'') (of_ascii ''sess1'') (of_ascii ''hi'')]
   \<and> req_body (speak_request cfg0 (of_ascii ''s1'') (of_ascii ''sess1'') (of_ascii ''hi''))
       \<noteq> ScriptBody (of_ascii '' hi '') (of_ascii ''sess1'')
   \<and> speak ((hook (ready0 True))\<lparr>streamId := Some []\<rparr>) (of_ascii ''hi'') (server True 200)
        (ready0 True) = (None, ready0 True)"
proof -
  have n: "trim (of_ascii '' hi '') \<noteq> []" unfolding trim_hi by (simp add: of_ascii_def)
  have a: "requests (snd (speak (hook (ready0 True)) (of_ascii '' hi '') (server True 200) (ready0 True)))
     = requests (ready0 True)
       @ [speak_request cfg0 (of_ascii ''s1'') (of_ascii ''sess1'') (of_ascii ''hi'')]"
    by (simp add: speak_ready0[OF n] requests_emit_Fetch trim_hi)
  have b: "req_body (speak_request cfg0 (of_ascii ''s1'') (of_ascii ''sess1'') (of_ascii ''hi''))
       \<noteq> ScriptBody (of_ascii '' hi '') (of_ascii ''sess1'')"
    by (simp add: speak_request_def of_ascii_def)
  have c: "speak ((hook (ready0 True))\<lparr>streamId := Some []\<rparr>) (of_ascii ''hi'') (server True 200)
        (ready0 True) = (None, ready0 True)"
    by (simp add: speak_def falsy_def)
  from a b c show ?thesis by blast
qed

theorem speak_requests_witness:
  "(\<exists>j\<le>3. requests (snd (speak (hook (ready0 True)) (of_ascii ''hi'') (server True 200) (ready0 True)))
       = requests (ready0 True)
         @ replicate (Suc j) (speak_request cfg0 (of_ascii ''s1'') (of_ascii ''sess1'') (of_ascii ''hi'')))
   \<and> speak (hook (session0 True)) (of_ascii ''hi'') (server True 200) (session0 True)
       = (None, session0 True)
   \<and> speak (hook (ready0 True)) (of_ascii ''  '') (server True 200) (ready0 True)
       = (None, ready0 True)"
proof -
  have 1: "peerConnection (hook (ready0 True)) \<noteq> None \<and> isStreamReady (hook (ready0 True))
      \<and> apiConfig (hook (ready0 True)) = Some cfg0
      \<and> streamId (hook (ready0 True)) = Some (of_ascii ''s1'') \<and> of_ascii ''s1'' \<noteq> []
      \<and> sessionId (hook (ready0 True)) = Some (of_ascii ''sess1'') \<and> of_ascii ''sess1'' \<noteq> []
      \<and> trim (of_ascii ''hi'') \<noteq> []"
    unfolding trim_hi2 by (simp add: hook_ready0) (simp add: of_ascii_def)
  have a: "\<exists>j\<le>3. requests (snd (speak (hook (ready0 True)) (of_ascii ''hi'') (server True 200) (ready0 True)))
       = requests (ready0 True)
         @ replicate (Suc j) (speak_request cfg0 (of_ascii ''s1'') (of_ascii ''sess1'') (of_ascii ''hi''))"
    using speak_requests[THEN conjunct2, rule_format, OF 1, THEN conjunct2] unfolding trim_hi2 .
  have b: "speak (hook (session0 True)) (of_ascii ''hi'') (server True 200) (session0 True)
       = (None, session0 True)"
    by (rule speak_requests[THEN conjunct1, rule_format]) (simp add: session0_def)
  have c: "speak (hook (ready0 True)) (of_ascii ''  '') (server True 200) (ready0 True)
       = (None, ready0 True)"
    by (rule speak_requests[THEN conjunct1, rule_format]) (simp add: of_ascii_def is_ws_def)
  from a b c show ?thesis by blast
qed

section \<open>The voice bridge: flushing the response buffer\<close>

lemma deltas_buffer: "deltas ds b = b\<lparr>currentResponseRef := currentResponseRef b @ concat ds\<rparr>"
  unfolding deltas_def by (induction ds arbitrary: b) simp_all


text \<open>
  C10. On \<open>response.text.done\<close>, a buffer that is not empty after trimming is handed to
  \<open>onTextReceived\<close>, stored as the last response, and cleared. A buffer of whitespace
  only is neither delivered nor cleared: the bridge is unchanged, the deltas of the next
  response are appended to it, and the next delivery starts with that whitespace.
\<close>

theorem text_done_delivery:
  "(trim (currentResponseRef b) \<noteq> [] \<longrightarrow>
      bridge_effects (handleRealtimeMessage ResponseTextDone b)
        = bridge_effects b @ [OnTextReceived (currentResponseRef b)]
      \<and> lastResponse (handleRealtimeMessage ResponseTextDone b) = currentResponseRef b
      \<and> currentResponseRef (handleRealtimeMessage ResponseTextDone b) = [])
   \<and> ((\<forall>c\<in>set (currentResponseRef b). is_ws c) \<longrightarrow>
      handleRealtimeMessage ResponseTextDone b = b
      \<and> currentResponseRef (deltas ds (handleRealtimeMessage ResponseTextDone b))
          = currentResponseRef b @ concat ds
      \<and> (trim (currentResponseRef b @ concat ds) \<noteq> [] \<longrightarrow>
           bridge_effects (handleRealtimeMessage ResponseTextDone
                             (deltas ds (handleRealtimeMessage ResponseTextDone b)))
             = bridge_effects b @ [OnTextReceived (currentResponseRef b @ concat ds)]))"
  by (simp add: trim_Nil_iff[symmetric] deltas_buffer bridge_emit_def)

theorem text_done_delivery_witness:
  "bridge_effects (handleRealtimeMessage ResponseTextDone (buffered (of_ascii ''Hello'')))
     = [OnTextReceived (of_ascii ''Hello'')]
   \<and> currentResponseRef (handleRealtimeMessage ResponseTextDone (buffered (of_ascii ''Hello''))) = []
   \<and> handleRealtimeMessage ResponseTextDone (buffered (of_ascii '' '')) = buffered (of_ascii '' '')
   \<and> bridge_effects (handleRealtimeMessage ResponseTextDone
        (deltas [of_ascii ''Hi''] (handleRealtimeMessage ResponseTextDone (buffered (of_ascii '' '')))))
     = [OnTextReceived (of_ascii '' Hi'')]"
proof -
  have 1: "trim (currentResponseRef (buffered (of_ascii ''Hello''))) \<noteq> []"
    by (simp add: buffered_def trim_def of_ascii_def is_ws_def)
  have 2: "\<forall>c\<in>set (currentResponseRef (buffered (of_ascii '' ''))). is_ws c"
    by (simp add: buffered_def of_ascii_def is_ws_def)
  have 3: "trim (currentResponseRef (buffered (of_ascii '' '')) @ concat [of_ascii ''Hi'']) \<noteq> []"
    by (simp add: buffered_def trim_def of_ascii_def is_ws_def)
  have a: "bridge_effects (handleRealtimeMessage ResponseTextDone (buffered (of_ascii ''Hello'')))
       = bridge_effects (buffered (of_ascii ''Hello''))
         @ [OnTextReceived (currentResponseRef (buffered (of_ascii ''Hello'')))]
     \<and> lastResponse (handleRealtimeMessage ResponseTextDone (buffered (of_ascii ''Hello'')))
         = currentResponseRef (buffered (of_ascii ''Hello''))
     \<and> currentResponseRef (handleRealtimeMessage ResponseTextDone (buffered (of_ascii ''Hello''))) = []"
    using text_done_delivery[THEN conjunct1, THEN mp, OF 1] .
  have b: "handleRealtimeMessage ResponseTextDone (buffered (of_ascii '' '')) = buffered (of_ascii '' '')"
    using text_done_delivery[THEN conjunct2, THEN mp, OF 2, THEN conjunct1] .
  have c: "bridge_effects (handleRealtimeMessage ResponseTextDone
        (deltas [of_ascii ''Hi''] (handleRealtimeMessage ResponseTextDone (buffered (of_ascii '' '')))))
     = bridge_effects (buffered (of_ascii '' ''))
       @ [OnTextReceived (currentResponseRef (buffered (of_ascii '' '')) @ concat [of_ascii ''Hi''])]"
    using text_done_delivery[THEN conjunct2, THEN mp, OF 2, THEN conjunct2, THEN conjunct2,
        THEN mp, OF 3] .
  from a b c show ?thesis
    by (simp add: buffered_def bridge_init_def of_ascii_def)
qed


section \<open>The voice bridge: reconnecting after a close\<close>

text \<open>A close code other than 1000 schedules one timer of 3000 ms; the code 1000 schedules none.\<close>

lemma timers_onclose:
  "timers (ws_onclose i code b)
     = (if code \<noteq> 1000 then timers b @ [(3000, ws_isConnected (sockets b ! i))] else timers b)"
  by (simp add: ws_onclose_def Let_def bridge_emit_def)

lemma racing_eval:
  "racing = \<lparr>isConnected = True, isListening = False, lastResponse = [], wsRef = Some 1,
      sockets = [\<lparr>readyState = OPEN, ws_isConnected = False\<rparr>,
                 \<lparr>readyState = CLOSED, ws_isConnected = False\<rparr>],
      streamRef = Some [(0, Audio)], currentResponseRef = [], timers = [(3000, False)],
      bridge_effects = [NewWebSocket 0, NewWebSocket 1, OnBridgeConnectionChange False,
                        OnBridgeConnectionChange True, SendSessionUpdate 0]\<rparr>"
  by (simp add: racing_def bridge_run_def realtime_connect_def ws_is_open_def bridge_init_def
      mic_def falsy_def of_ascii_def Let_def bridge_emit_def ws_onopen_def ws_onclose_def)

text \<open>
  C9 does not hold of the code. \<open>connect\<close> of the bridge is called twice before the first
  socket has opened, so that the bridge holds the second socket; the second socket closes
  with code 1006, which schedules the timer of 3000 ms, and the first socket opens: the
  bridge is connected, over an open socket. The timer callback tests the \<open>isConnected\<close> it
  closed over, which is false, and the \<open>connect\<close> it calls tests the same value and the
  socket the bridge holds, which is the closed one: a third socket is opened although the
  bridge is connected.
\<close>

theorem reconnect_while_connected:
  "isConnected racing
   \<and> sockets racing = [\<lparr>readyState = OPEN, ws_isConnected = False\<rparr>,
                       \<lparr>readyState = CLOSED, ws_isConnected = False\<rparr>]
   \<and> wsRef racing = Some 1
   \<and> timers racing = [(3000, False)]
   \<and> sockets (bridge_handle mic TimerFired racing)
       = sockets racing @ [\<lparr>readyState = CONNECTING, ws_isConnected = False\<rparr>]
   \<and> wsRef (bridge_handle mic TimerFired racing) = Some 2
   \<and> bridge_effects (bridge_handle mic TimerFired racing)
       = bridge_effects racing @ [NewWebSocket 2]
   \<and> isConnected (bridge_handle mic TimerFired racing)"
  by (simp add: racing_eval reconnect_timer_def realtime_connect_def ws_is_open_def mic_def
      falsy_def of_ascii_def Let_def bridge_emit_def)

section \<open>Track arrival and the stream health monitor\<close>

lemma hook_play_if_paused [simp]: "hook (play_if_paused w) = hook w"
  by (simp add: play_if_paused_def emit_def split: option.splits)

lemma hook_updateVideoDisplay [simp]: "hook (updateVideoDisplay r s p w) = hook w"
  by (simp add: updateVideoDisplay_def Let_def split: option.splits)

lemma setIsStreamPlaying_same [simp]: "setIsStreamPlaying (isStreamPlaying (hook w)) w = w"
  by (simp add: setIsStreamPlaying_def)

lemma setIsStreamPlaying_twice [simp]:
  "setIsStreamPlaying b (setIsStreamPlaying c w) = setIsStreamPlaying b w"
  by (simp add: setIsStreamPlaying_def)

lemma on_report_fluent:
  "pc_isFluentMode pc \<Longrightarrow> \<exists>b. fst (on_report pc rep (w, m)) = setIsStreamPlaying b w"
proof -
  assume f: "pc_isFluentMode pc"
  have "fst (on_report pc rep (w, m)) = w \<or>
        fst (on_report pc rep (w, m)) = setIsStreamPlaying (bytesReceived rep > lastBytes m) w"
    using f by (simp add: on_report_def Let_def)
  then show ?thesis using setIsStreamPlaying_same[of w] by metis
qed

lemma foldl_on_report_fluent:
  "pc_isFluentMode pc \<Longrightarrow>
   \<exists>b. fst (foldl (\<lambda>wm rep. on_report pc rep wm) (w, m) reps) = setIsStreamPlaying b w"
proof (induction reps arbitrary: w m)
  case Nil
  show ?case using setIsStreamPlaying_same[of w] by (simp, metis)
next
  case (Cons rep reps)
  obtain w1 m1 where s: "on_report pc rep (w, m) = (w1, m1)" by (cases "on_report pc rep (w, m)")
  obtain b where b: "w1 = setIsStreamPlaying b w"
    using on_report_fluent[OF Cons.prems, of rep w m] s by auto
  obtain c where "fst (foldl (\<lambda>wm rep. on_report pc rep wm) (w1, m1) reps) = setIsStreamPlaying c w1"
    using Cons.IH[OF Cons.prems, of w1 m1] by blast
  then show ?case by (simp add: s b) blast
qed

lemma on_interval_fluent:
  assumes "pc_isFluentMode (pcs w ! mon_pc (monitors w ! k))"
  shows "\<exists>b ms. on_interval k st w = (setIsStreamPlaying b w)\<lparr>monitors := ms\<rparr>"
proof -
  let ?m = "monitors w ! k" and ?pc = "pcs w ! mon_pc (monitors w ! k)"
  have keep: "\<exists>b ms. w = (setIsStreamPlaying b w)\<lparr>monitors := ms\<rparr>"
    by (rule exI[of _ "isStreamPlaying (hook w)"], rule exI[of _ "monitors w"]) simp
  have upd: "\<exists>b ms. w\<lparr>monitors := xs\<rparr> = (setIsStreamPlaying b w)\<lparr>monitors := ms\<rparr>" for xs
    by (rule exI[of _ "isStreamPlaying (hook w)"], rule exI[of _ xs]) simp
  show ?thesis
  proof (cases "connectionState ?pc = Closed")
    case True
    then show ?thesis using upd by (simp add: on_interval_def Let_def)
  next
    case False
    show ?thesis
    proof (cases st)
      case (Reports reps)
      obtain b where "fst (foldl (\<lambda>wm rep. on_report ?pc rep wm) (w, ?m) reps) = setIsStreamPlaying b w"
        using foldl_on_report_fluent[OF assms, of w ?m reps] by blast
      then show ?thesis using False Reports by (simp add: on_interval_def Let_def) blast
    qed (use False keep in \<open>simp_all add: on_interval_def Let_def\<close>)
  qed
qed

lemma on_report_playing:
  "isStreamPlaying (hook (fst (on_report pc rep (w, m)))) \<Longrightarrow>
   isStreamPlaying (hook w)
   \<or> (rep_type rep = InboundRtp \<and> rep_kind rep = Video \<and> bytesReceived rep > lastBytes m)"
  by (auto simp: on_report_def Let_def setIsStreamPlaying_def split: if_splits)

lemma on_report_lastBytes:
  "lastBytes (snd (on_report pc rep (w, m)))
     = (if rep_type rep = InboundRtp \<and> rep_kind rep = Video then bytesReceived rep else lastBytes m)"
  by (simp add: on_report_def Let_def)

lemma foldl_on_report_playing:
  "isStreamPlaying (hook (fst (foldl (\<lambda>wm rep. on_report pc rep wm) (w, m) reps))) \<Longrightarrow>
   isStreamPlaying (hook w) \<or> increase_seen (lastBytes m) reps"
proof (induction reps arbitrary: w m)
  case Nil
  then show ?case by simp
next
  case (Cons rep reps)
  obtain w1 m1 where s: "on_report pc rep (w, m) = (w1, m1)" by (cases "on_report pc rep (w, m)")
  have "isStreamPlaying (hook w1) \<or> increase_seen (lastBytes m1) reps"
    using Cons.IH[of w1 m1] Cons.prems by (simp add: s)
  moreover have "lastBytes m1
      = (if rep_type rep = InboundRtp \<and> rep_kind rep = Video then bytesReceived rep else lastBytes m)"
    using on_report_lastBytes[of pc rep w m] by (simp add: s)
  moreover have "isStreamPlaying (hook w1) \<Longrightarrow> isStreamPlaying (hook w)
   \<or> (rep_type rep = InboundRtp \<and> rep_kind rep = Video \<and> bytesReceived rep > lastBytes m)"
    using on_report_playing[of pc rep w m] by (simp add: s)
  ultimately show ?case by (auto split: if_splits)
qed

lemma on_interval_playing:
  "isStreamPlaying (hook (on_interval k st w)) \<Longrightarrow>
   isStreamPlaying (hook w)
   \<or> (\<exists>reps. st = Reports reps \<and> increase_seen (lastBytes (monitors w ! k)) reps)"
  using foldl_on_report_playing[of "pcs w ! mon_pc (monitors w ! k)" w "monitors w ! k"]
  by (cases st) (auto simp: on_interval_def Let_def split: if_splits)

lemma on_track_hook:
  "\<exists>b. hook (on_track i streams w) = (hook w)\<lparr>isStreamReady := b\<rparr>"
proof -
  have k: "\<exists>b. hook w = (hook w)\<lparr>isStreamReady := b\<rparr>"
    by (rule exI[of _ "isStreamReady (hook w)"]) simp
  show ?thesis
    using k by (auto simp: on_track_def Let_def setters split: list.splits option.splits)
qed

lemma on_track_playing [simp]:
  "isStreamPlaying (hook (on_track i streams w)) = isStreamPlaying (hook w)"
  using on_track_hook[of i streams w] by auto

lemma closeConnection_playing:
  "isStreamPlaying (hook (closeConnection r w)) \<Longrightarrow> isStreamPlaying (hook w)"
  by (auto simp: closeConnection_def setters close_pc_def split: option.splits)

lemma on_connectionstatechange_playing:
  "isStreamPlaying (hook (on_connectionstatechange i w)) \<Longrightarrow> isStreamPlaying (hook w)"
  by (auto simp: on_connectionstatechange_def Let_def setters split: if_splits
      dest!: closeConnection_playing)

lemma handle_playing:
  assumes "isStreamPlaying (hook (handle ev e w))" and "\<not> isStreamPlaying (hook w)"
  shows "\<exists>k reps. e = Interval k (Reports reps) \<and> increase_seen (lastBytes (monitors w ! k)) reps"
proof (cases e)
  case (IceCandidate i cand)
  then show ?thesis using assms
    by (auto simp: on_icecandidate_def Let_def fetch_def emit_def split: if_splits)
next
  case (ConnectionStateChange i st)
  then show ?thesis using assms
    by (auto split: if_splits dest!: on_connectionstatechange_playing)
next
  case (Track i streams)
  then show ?thesis using assms by (auto split: if_splits)
next
  case (Interval k st)
  then show ?thesis using assms on_interval_playing[of k st w] by (auto split: if_splits)
next
  case DelayedPlay
  then show ?thesis using assms by (simp add: delayed_play_def)
qed

lemma connect_try_playing:
  "isStreamPlaying (hook (snd (connect_try r cfg ev w))) = isStreamPlaying (hook w)"
  unfolding connect_try_def
  by (auto split: prod.splits sum.splits response_body.splits
        dest!: fetch_D fetchWithRetry_D prep_idle_D simp: Let_def setters new_pc_def)

lemma connect_playing:
  "isStreamPlaying (hook (connect r ev w)) \<Longrightarrow> isStreamPlaying (hook w)"
proof (cases "apiConfig r")
  case None
  assume "isStreamPlaying (hook (connect r ev w))"
  then show ?thesis using None by (simp add: connect_def)
next
  case (Some cfg)
  assume p: "isStreamPlaying (hook (connect r ev w))"
  show ?thesis
  proof (cases "pc_connected r w")
    case True
    then show ?thesis using p Some by (simp add: connect_connected setters)
  next
    case False
    let ?w2 = "closeConnection r (stopStream (onConnectionStatusChange StatusConnecting w))"
    obtain e w3 where t: "connect_try r cfg ev ?w2 = (e, w3)"
      by (cases "connect_try r cfg ev ?w2")
    have "isStreamPlaying (hook w3) = isStreamPlaying (hook ?w2)"
      using connect_try_playing[of r cfg ev ?w2] by (simp add: t)
    moreover have c: "connect r ev w =
        (case e of None \<Rightarrow> w3
         | Some err \<Rightarrow> onConnectionChange False (onConnectionStatusChange StatusConnectionFailed w3))"
      by (simp add: connect_unfold[OF Some False] t)
    moreover have "isStreamPlaying (hook w3)"
      using p unfolding c by (cases e) (simp_all add: setters)
    ultimately have "isStreamPlaying (hook ?w2)" by simp
    then have "isStreamPlaying (hook (stopStream (onConnectionStatusChange StatusConnecting w)))"
      by (rule closeConnection_playing)
    then show ?thesis by (simp add: setters)
  qed
qed

lemma tracked_eval:
  "tracked fl =
     (session0 fl)
       \<lparr>hook := (hook (session0 fl))\<lparr>isStreamReady := fl\<rparr>,
        streamVideo := map_option (\<lambda>sv. sv\<lparr>srcObject := Some av_stream, muted := False,
                                             opacity := (if fl then 1 else 0)\<rparr>)
                         (streamVideo (session0 fl)),
        idleVideo := map_option (\<lambda>iv. iv\<lparr>opacity := (if fl then 0 else 1)\<rparr>)
                       (idleVideo (session0 fl)),
        monitors := [\<lparr>mon_pc = 0, mon_track = 7, mon_stream = av_stream, lastBytes = 0,
                      lastPlayingState = False, cleared = False\<rparr>],
        effects := effects (session0 fl) @ (if fl then [SetTimeout 100] else [])\<rparr>"
  by (cases fl)
     (simp_all add: tracked_def on_track_def getVideoTracks_def av_stream_def session0_def
        video_init_def Let_def setters)

lemma handle_track0: "handle ev (Track 0 [av_stream]) (session0 fl) = tracked fl"
  by (simp add: pc_open_def tracked_def session0_def)

lemma sample_playing:
  "isStreamPlaying (hook (handle ev (Interval 0 (Reports [video_report 1])) (tracked fl)))"
  by (cases fl)
     (simp_all add: tracked_eval session0_def on_interval_def on_report_def video_report_def
        Let_def setters)

lemma tracked_not_playing: "\<not> isStreamPlaying (hook (tracked fl))"
  by (simp add: tracked_eval session0_def)

lemma run_track: "run ev [Track 0 [av_stream]] (session0 fl) = tracked fl"
  unfolding run_def by (simp only: foldl.simps handle_track0)

lemma run_track_interval:
  "run ev [Track 0 [av_stream], Interval 0 st] (session0 fl) = handle ev (Interval 0 st) (tracked fl)"
  unfolding run_def by (simp only: foldl.simps handle_track0)

lemma on_track_monitor:
  assumes "getVideoTracks stream \<noteq> []" and "streamVideo w \<noteq> None"
  shows "monitors (on_track i (stream # ss) w)
       = monitors w @ [\<lparr>mon_pc = i, mon_track = fst (hd (getVideoTracks stream)),
                         mon_stream = stream, lastBytes = 0, lastPlayingState = False,
                         cleared = False\<rparr>]"
  using assms by (auto simp: on_track_def Let_def setters split: list.splits option.splits)

lemma on_report_increase:
  "rep_type rep = InboundRtp \<Longrightarrow> rep_kind rep = Video \<Longrightarrow> bytesReceived rep > lastBytes m \<Longrightarrow>
   \<not> lastPlayingState m \<Longrightarrow> isStreamPlaying (hook (fst (on_report pc rep (w, m))))"
  by (simp add: on_report_def Let_def setIsStreamPlaying_def)

lemma on_interval_fluent_fields:
  assumes "pc_isFluentMode (pcs w ! mon_pc (monitors w ! k))"
  shows "streamVideo (on_interval k st w) = streamVideo w
       \<and> idleVideo (on_interval k st w) = idleVideo w
       \<and> effects (on_interval k st w) = effects w
       \<and> pcs (on_interval k st w) = pcs w
       \<and> isStreamReady (hook (on_interval k st w)) = isStreamReady (hook w)"
proof -
  obtain b ms where "on_interval k st w = (setIsStreamPlaying b w)\<lparr>monitors := ms\<rparr>"
    using on_interval_fluent[OF assms, of st] by blast
  then show ?thesis by (simp add: setIsStreamPlaying_def)
qed

lemma getVideoTracks_av: "getVideoTracks av_stream = [(7, Video)]"
  by (simp add: getVideoTracks_def av_stream_def)

lemma monitors_play_if_paused [simp]: "monitors (play_if_paused w) = monitors w"
  by (simp add: play_if_paused_def emit_def split: option.splits)

lemma monitors_updateVideoDisplay [simp]: "monitors (updateVideoDisplay r s p w) = monitors w"
  by (simp add: updateVideoDisplay_def Let_def split: option.splits)

lemma on_report_monitors: "monitors (fst (on_report pc rep (w, m))) = monitors w"
  by (simp add: on_report_def Let_def setIsStreamPlaying_def)

lemma foldl_on_report_monitors:
  "foldl (\<lambda>wm rep. on_report pc rep wm) (w, m) reps = (w', m') \<Longrightarrow> monitors w' = monitors w"
proof (induction reps arbitrary: w m)
  case Nil
  then show ?case by simp
next
  case (Cons rep reps)
  obtain w1 m1 where s: "on_report pc rep (w, m) = (w1, m1)" by (cases "on_report pc rep (w, m)")
  have "monitors w1 = monitors w"
    using on_report_monitors[of pc rep w m] by (simp add: s)
  moreover have "monitors w' = monitors w1"
    using Cons.IH[of w1 m1] Cons.prems by (simp add: s)
  ultimately show ?case by simp
qed

lemma foldl_on_report_sampled:
  "foldl (\<lambda>wm rep. on_report pc rep wm) (w, m) reps = (w', m') \<Longrightarrow>
   (lastBytes m', lastPlayingState m', isStreamPlaying (hook w'))
     = sampled (lastBytes m) (lastPlayingState m) (isStreamPlaying (hook w)) reps"
proof (induction reps arbitrary: w m)
  case Nil
  then show ?case by simp
next
  case (Cons rep reps)
  obtain w1 m1 where s: "on_report pc rep (w, m) = (w1, m1)" by (cases "on_report pc rep (w, m)")
  have 1: "(lastBytes m1, lastPlayingState m1, isStreamPlaying (hook w1))
      = (if rep_type rep = InboundRtp \<and> rep_kind rep = Video
         then (bytesReceived rep, bytesReceived rep > lastBytes m,
               if (bytesReceived rep > lastBytes m) \<noteq> lastPlayingState m
               then bytesReceived rep > lastBytes m else isStreamPlaying (hook w))
         else (lastBytes m, lastPlayingState m, isStreamPlaying (hook w)))"
    using s by (auto simp: on_report_def Let_def setIsStreamPlaying_def split: if_splits)
  have "foldl (\<lambda>wm rep. on_report pc rep wm) (w1, m1) reps = (w', m')"
    using Cons.prems by (simp add: s)
  from Cons.IH[OF this] 1 show ?case
    by (auto split: if_splits)
qed

lemma on_interval_sampled:
  assumes "connectionState (pcs w ! mon_pc (monitors w ! k)) \<noteq> Closed"
  shows "isStreamPlaying (hook (on_interval k (Reports reps) w))
        = snd (snd (sampled (lastBytes (monitors w ! k)) (lastPlayingState (monitors w ! k))
                      (isStreamPlaying (hook w)) reps))"
    and "k < length (monitors w) \<longrightarrow>
           lastBytes (monitors (on_interval k (Reports reps) w) ! k)
             = fst (sampled (lastBytes (monitors w ! k)) (lastPlayingState (monitors w ! k))
                      (isStreamPlaying (hook w)) reps)
           \<and> lastPlayingState (monitors (on_interval k (Reports reps) w) ! k)
             = fst (snd (sampled (lastBytes (monitors w ! k))
                           (lastPlayingState (monitors w ! k)) (isStreamPlaying (hook w)) reps))"
proof -
  let ?m = "monitors w ! k" and ?pc = "pcs w ! mon_pc (monitors w ! k)"
  obtain w' m' where f: "foldl (\<lambda>wm rep. on_report ?pc rep wm) (w, ?m) reps = (w', m')"
    by (cases "foldl (\<lambda>wm rep. on_report ?pc rep wm) (w, ?m) reps")
  have i: "on_interval k (Reports reps) w = w'\<lparr>monitors := (monitors w')[k := m']\<rparr>"
    using assms by (simp add: on_interval_def Let_def f)
  have l: "length (monitors w') = length (monitors w)"
    using foldl_on_report_monitors[OF f] by simp
  note s = foldl_on_report_sampled[OF f, symmetric]
  show "isStreamPlaying (hook (on_interval k (Reports reps) w))
        = snd (snd (sampled (lastBytes ?m) (lastPlayingState ?m) (isStreamPlaying (hook w)) reps))"
    unfolding i s by simp
  show "k < length (monitors w) \<longrightarrow>
           lastBytes (monitors (on_interval k (Reports reps) w) ! k)
             = fst (sampled (lastBytes ?m) (lastPlayingState ?m) (isStreamPlaying (hook w)) reps)
           \<and> lastPlayingState (monitors (on_interval k (Reports reps) w) ! k)
             = fst (snd (sampled (lastBytes ?m) (lastPlayingState ?m)
                           (isStreamPlaying (hook w)) reps))"
    unfolding i s using l by simp
qed

text \<open>
  C3, as stated, fails. With the fluent flag true, the track event starts an interval all
  the same, and its first sample with a positive byte count sets \<open>isStreamPlaying\<close>.
\<close>

theorem fluent_sampling_sets_playing:
  "pc_isFluentMode (pcs (session0 True) ! 0)
   \<and> length (monitors (run (server True 200) [Track 0 [av_stream]] (session0 True))) = 1
   \<and> \<not> isStreamPlaying (hook (run (server True 200) [Track 0 [av_stream]] (session0 True)))
   \<and> isStreamPlaying (hook (run (server True 200)
        [Track 0 [av_stream], Interval 0 (Reports [video_report 1])] (session0 True)))"
  unfolding run_track run_track_interval
  using sample_playing[of "server True 200" True] tracked_not_playing[of True]
  by (simp add: session0_def tracked_eval)


text \<open>
  C3, amended. Every track event that passes the guard of the listener (a video track, a
  mounted stream video) starts an interval of its own, whatever the fluent flag. A run of
  the interval on a connection that is not closed compares the byte counts and sets
  \<open>isStreamPlaying\<close> in both modes: the flag after the run is the one \<open>sampled\<close> computes
  from the reports, and one inbound video report with more bytes than recorded, the
  recorded playing state being false, sets it. With the fluent flag true, a run of the
  interval touches neither video, reports nothing and leaves \<open>isStreamReady\<close> alone: only
  \<open>updateVideoDisplay\<close> is skipped.
\<close>

theorem sampling_in_both_modes:
  "(getVideoTracks stream \<noteq> [] \<and> streamVideo w \<noteq> None \<longrightarrow>
      monitors (on_track i (stream # ss) w)
        = monitors w @ [\<lparr>mon_pc = i, mon_track = fst (hd (getVideoTracks stream)),
                          mon_stream = stream, lastBytes = 0, lastPlayingState = False,
                          cleared = False\<rparr>])
   \<and> (connectionState (pcs w ! mon_pc (monitors w ! k)) \<noteq> Closed \<longrightarrow>
      isStreamPlaying (hook (on_interval k (Reports reps) w))
        = snd (snd (sampled (lastBytes (monitors w ! k)) (lastPlayingState (monitors w ! k))
                      (isStreamPlaying (hook w)) reps))
      \<and> (k < length (monitors w) \<longrightarrow>
           lastBytes (monitors (on_interval k (Reports reps) w) ! k)
             = fst (sampled (lastBytes (monitors w ! k)) (lastPlayingState (monitors w ! k))
                      (isStreamPlaying (hook w)) reps)
           \<and> lastPlayingState (monitors (on_interval k (Reports reps) w) ! k)
             = fst (snd (sampled (lastBytes (monitors w ! k))
                           (lastPlayingState (monitors w ! k)) (isStreamPlaying (hook w)) reps))))
   \<and> (connectionState (pcs w ! mon_pc (monitors w ! k)) \<noteq> Closed
        \<and> rep_type rep = InboundRtp \<and> rep_kind rep = Video
        \<and> bytesReceived rep > lastBytes (monitors w ! k)
        \<and> \<not> lastPlayingState (monitors w ! k) \<longrightarrow>
      isStreamPlaying (hook (on_interval k (Reports [rep]) w)))
   \<and> (rep_type rep = InboundRtp \<and> rep_kind rep = Video \<and> bytesReceived rep > lastBytes m
        \<and> \<not> lastPlayingState m \<longrightarrow>
      isStreamPlaying (hook (fst (on_report pc rep (w, m)))))
   \<and> (pc_isFluentMode (pcs w ! mon_pc (monitors w ! k)) \<longrightarrow>
      streamVideo (on_interval k st w) = streamVideo w
      \<and> idleVideo (on_interval k st w) = idleVideo w
      \<and> effects (on_interval k st w) = effects w
      \<and> pcs (on_interval k st w) = pcs w
      \<and> isStreamReady (hook (on_interval k st w)) = isStreamReady (hook w))"
proof -
  have 2: "isStreamPlaying (hook (on_interval k (Reports [rep]) w))"
    if "connectionState (pcs w ! mon_pc (monitors w ! k)) \<noteq> Closed"
      and "rep_type rep = InboundRtp" and "rep_kind rep = Video"
      and "bytesReceived rep > lastBytes (monitors w ! k)"
      and "\<not> lastPlayingState (monitors w ! k)"
    using that on_interval_sampled(1)[of w k "[rep]"] by simp
  show ?thesis
    using on_track_monitor[of stream w i ss] on_report_increase[of rep m pc w]
      on_interval_fluent_fields[of w k st] on_interval_sampled[of w k reps] 2
    by blast
qed

theorem sampling_in_both_modes_witness:
  "monitors (on_track 0 [av_stream] (session0 True))
     = [\<lparr>mon_pc = 0, mon_track = 7, mon_stream = av_stream, lastBytes = 0,
         lastPlayingState = False, cleared = False\<rparr>]
   \<and> pc_isFluentMode (pcs (tracked True) ! 0)
   \<and> \<not> isStreamPlaying (hook (tracked True))
   \<and> isStreamPlaying (hook (on_interval 0 (Reports [video_report 1]) (tracked True)))
   \<and> lastBytes (monitors (on_interval 0 (Reports [video_report 1]) (tracked True)) ! 0) = 1
   \<and> \<not> isStreamPlaying (hook (on_interval 0 (Reports [video_report 1])
          (on_interval 0 (Reports [video_report 1]) (tracked True))))
   \<and> streamVideo (on_interval 0 (Reports [video_report 1]) (tracked True))
       = streamVideo (tracked True)
   \<and> idleVideo (on_interval 0 (Reports [video_report 1]) (tracked True))
       = idleVideo (tracked True)"
proof -
  let ?w1 = "on_interval 0 (Reports [video_report 1]) (tracked True)"
  have 1: "getVideoTracks av_stream \<noteq> [] \<and> streamVideo (session0 True) \<noteq> None"
    by (simp add: getVideoTracks_av session0_def)
  have 2: "pc_isFluentMode (pcs (tracked True) ! mon_pc (monitors (tracked True) ! 0))"
    by (simp add: tracked_eval session0_def)
  have 3: "connectionState (pcs (tracked True) ! mon_pc (monitors (tracked True) ! 0)) \<noteq> Closed"
    by (simp add: tracked_eval session0_def)
  have 4: "connectionState (pcs (tracked True) ! mon_pc (monitors (tracked True) ! 0)) \<noteq> Closed
      \<and> rep_type (video_report 1) = InboundRtp \<and> rep_kind (video_report 1) = Video
      \<and> bytesReceived (video_report 1) > lastBytes (monitors (tracked True) ! 0)
      \<and> \<not> lastPlayingState (monitors (tracked True) ! 0)"
    by (simp add: tracked_eval session0_def video_report_def)
  have 5: "(0::nat) < length (monitors (tracked True))"
    by (simp add: tracked_eval)
  have a: "monitors (on_track 0 [av_stream] (session0 True))
      = monitors (session0 True) @ [\<lparr>mon_pc = 0, mon_track = fst (hd (getVideoTracks av_stream)),
                          mon_stream = av_stream, lastBytes = 0, lastPlayingState = False,
                          cleared = False\<rparr>]"
    using sampling_in_both_modes[THEN conjunct1, THEN mp, OF 1] .
  have b: "streamVideo ?w1 = streamVideo (tracked True)
     \<and> idleVideo ?w1 = idleVideo (tracked True) \<and> pcs ?w1 = pcs (tracked True)"
    using sampling_in_both_modes[THEN conjunct2, THEN conjunct2, THEN conjunct2, THEN conjunct2,
        THEN mp, OF 2] by blast
  have c: "isStreamPlaying (hook ?w1)"
    using sampling_in_both_modes[THEN conjunct2, THEN conjunct2, THEN conjunct1, THEN mp, OF 4] .
  note s = sampling_in_both_modes[where reps = "[video_report 1]",
      THEN conjunct2, THEN conjunct1, THEN mp, OF 3]
  have d: "lastBytes (monitors ?w1 ! 0) = 1 \<and> lastPlayingState (monitors ?w1 ! 0)"
    using s[THEN conjunct2, THEN mp, OF 5]
    by (simp add: tracked_eval session0_def video_report_def)
  have 6: "connectionState (pcs ?w1 ! mon_pc (monitors ?w1 ! 0)) \<noteq> Closed"
    by (simp add: on_interval_def on_report_def Let_def tracked_eval session0_def
        video_report_def setters)
  have e: "\<not> isStreamPlaying (hook (on_interval 0 (Reports [video_report 1]) ?w1))"
    using sampling_in_both_modes[where reps = "[video_report 1]",
        THEN conjunct2, THEN conjunct1, THEN mp, OF 6, THEN conjunct1] d c
    by (simp add: video_report_def)
  from a b c d e show ?thesis
    using tracked_not_playing[of True]
    by (simp add: getVideoTracks_av session0_def tracked_eval)
qed

text \<open>
  C4. When the connection is fluent, the first stream of the track event has a video
  track and the stream video is mounted, the track listener sets \<open>isStreamReady\<close>, binds
  the stream to the stream video with opacity 1 and unmuted, and sets the opacity of the
  idle video, if mounted, to 0. No byte count is read for this, and no later run of an
  interval of a fluent connection, whatever its statistics, changes any of it.
\<close>

theorem fluent_track_shows_stream:
  assumes "pc_isFluentMode (pcs w ! i)" and "getVideoTracks stream \<noteq> []"
    and "streamVideo w = Some sv"
  shows "isStreamReady (hook (on_track i (stream # ss) w))
       \<and> streamVideo (on_track i (stream # ss) w)
           = Some (sv\<lparr>srcObject := Some stream, muted := False, opacity := 1\<rparr>)
       \<and> idleVideo (on_track i (stream # ss) w)
           = map_option (\<lambda>iv. iv\<lparr>opacity := 0\<rparr>) (idleVideo w)
       \<and> (pc_isFluentMode (pcs (on_track i (stream # ss) w)
              ! mon_pc (monitors (on_track i (stream # ss) w) ! k)) \<longrightarrow>
            isStreamReady (hook (on_interval k st (on_track i (stream # ss) w)))
            \<and> streamVideo (on_interval k st (on_track i (stream # ss) w))
                = Some (sv\<lparr>srcObject := Some stream, muted := False, opacity := 1\<rparr>)
            \<and> idleVideo (on_interval k st (on_track i (stream # ss) w))
                = map_option (\<lambda>iv. iv\<lparr>opacity := 0\<rparr>) (idleVideo w))"
proof -
  let ?w' = "on_track i (stream # ss) w"
  have a: "isStreamReady (hook ?w')
       \<and> streamVideo ?w' = Some (sv\<lparr>srcObject := Some stream, muted := False, opacity := 1\<rparr>)
       \<and> idleVideo ?w' = map_option (\<lambda>iv. iv\<lparr>opacity := 0\<rparr>) (idleVideo w)"
    using assms by (auto simp: on_track_def Let_def setters split: list.splits)
  show ?thesis
    using a on_interval_fluent_fields[of ?w' k st] by simp
qed

theorem fluent_track_shows_stream_witness:
  "isStreamReady (hook (on_track 0 [av_stream] (session0 True)))
   \<and> map_option opacity (streamVideo (on_track 0 [av_stream] (session0 True))) = Some 1
   \<and> map_option muted (streamVideo (on_track 0 [av_stream] (session0 True))) = Some False
   \<and> map_option opacity (idleVideo (on_track 0 [av_stream] (session0 True))) = Some 0"
proof -
  have 1: "pc_isFluentMode (pcs (session0 True) ! 0)" by (simp add: session0_def)
  have 2: "getVideoTracks av_stream \<noteq> []" by (simp add: getVideoTracks_av)
  have 3: "streamVideo (session0 True) = Some ((video_init 0)\<lparr>parent_backgroundImage := Some []\<rparr>)"
    by (simp add: session0_def)
  show ?thesis
    using fluent_track_shows_stream[OF 1 2 3, of "[]" 0 NoReceiver]
    by (simp add: session0_def)
qed

text \<open>
  C5, as stated, fails. With the fluent flag false, one sample is enough: the first run of
  the interval compares the byte count with the initial 0, so a first sample of one byte
  sets \<open>isStreamPlaying\<close>; no second sample is needed.
\<close>

theorem playing_after_first_sample:
  "\<not> pc_isFluentMode (pcs (session0 False) ! 0)
   \<and> \<not> isStreamPlaying (hook (run (server False 200) [Track 0 [av_stream]] (session0 False)))
   \<and> isStreamPlaying (hook (run (server False 200)
        [Track 0 [av_stream], Interval 0 (Reports [video_report 1])] (session0 False)))"
  unfolding run_track run_track_interval
  using sample_playing[of "server False 200" False] tracked_not_playing[of False]
  by (simp add: session0_def)

text \<open>
  C5, amended. An event of the peer connection turns \<open>isStreamPlaying\<close> from false to true
  only when it is a run of an interval whose statistics hold an inbound video report with
  more bytes than the count recorded before it; that count starts at 0 when the track
  arrives. The track listener never changes \<open>isStreamPlaying\<close>, and \<open>connect\<close> never sets
  it.
\<close>

theorem playing_needs_increase:
  "(isStreamPlaying (hook (handle ev e w)) \<and> \<not> isStreamPlaying (hook w) \<longrightarrow>
      (\<exists>k reps. e = Interval k (Reports reps)
         \<and> increase_seen (lastBytes (monitors w ! k)) reps))
   \<and> isStreamPlaying (hook (on_track i streams w)) = isStreamPlaying (hook w)
   \<and> (getVideoTracks stream \<noteq> [] \<and> streamVideo w \<noteq> None \<longrightarrow>
        lastBytes (last (monitors (on_track i (stream # ss) w))) = 0)
   \<and> (isStreamPlaying (hook (connect r ev w)) \<longrightarrow> isStreamPlaying (hook w))"
  using handle_playing[of ev e w] on_track_monitor[of stream w i ss] connect_playing[of r ev w]
  by auto

theorem playing_needs_increase_witness:
  "isStreamPlaying (hook (handle (server False 200) (Interval 0 (Reports [video_report 1]))
      (tracked False)))
   \<and> \<not> isStreamPlaying (hook (tracked False))
   \<and> increase_seen (lastBytes (monitors (tracked False) ! 0)) [video_report 1]"
proof -
  have 1: "isStreamPlaying (hook (handle (server False 200) (Interval 0 (Reports [video_report 1]))
      (tracked False))) \<and> \<not> isStreamPlaying (hook (tracked False))"
    using sample_playing[of "server False 200" False] tracked_not_playing[of False] by simp
  have "\<exists>k reps. Interval 0 (Reports [video_report 1]) = Interval k (Reports reps)
         \<and> increase_seen (lastBytes (monitors (tracked False) ! k)) reps"
    using playing_needs_increase[THEN conjunct1, THEN mp, OF 1] .
  then have "increase_seen (lastBytes (monitors (tracked False) ! 0)) [video_report 1]"
    by auto
  with 1 show ?thesis by blast
qed

end
